theory Spec2Isabelle
  imports Complex_Main
begin

section \<open>Numbers and strings of the JavaScript runtime\<close>

text \<open>
  A JavaScript Number is modelled as an exact rational: sums, differences, products and
  quotients are the mathematical ones, where the runtime computes in IEEE 754 doubles and
  rounds every intermediate result to the nearest double. The two can differ in the last
  place, and so, next to a tie, in what \<open>Math.round\<close> makes of a result.
  \<open>Math.round\<close> rounds to the nearest integer and rounds a tie towards plus infinity,
  which is \<open>floor (x + 1/2)\<close>.
\<close>

definition Math_round :: "rat \<Rightarrow> int" where
  "Math_round x = \<lfloor>x + 1 / 2\<rfloor>"

text \<open>
  The setter shared by \<open>Account.balance\<close> (models/Account.js) and
  \<open>Transaction.amount\<close> (the Transaction schema):
  \<^verbatim>\<open>set: function(val) { return Math.round(val * 100) / 100; }\<close>.
  Mongoose runs it on every assignment to the field of a document, and on the operand of
  an update operator on the field.

  The product \<open>val * 100\<close> is the exact one here. The runtime rounds the product of
  the doubles: for the decimal 1.005 it is 100.49999999999999 and the setter returns 1,
  where the definition returns 1.01; for 0.015 the product of the doubles is 1.5 and the
  setter returns 0.02, although the double nearest to 0.015 lies below it. On a value in
  whole cents the runtime and the definition both return the value itself. Where the
  theorem of a claim below states a stored value, it states it for a value in whole
  cents, or at a concrete value on which the doubles give the same result.
\<close>

definition round_set :: "rat \<Rightarrow> rat" where
  "round_set val = of_int (Math_round (val * 100)) / 100"

text \<open>\<open>String.prototype.toLowerCase\<close> on ASCII text.\<close>

definition toLowerCase :: "string \<Rightarrow> string" where
  "toLowerCase s =
     map (\<lambda>c. case map_of (zip ''ABCDEFGHIJKLMNOPQRSTUVWXYZ'' ''abcdefghijklmnopqrstuvwxyz'') c of
                 Some d \<Rightarrow> d | None \<Rightarrow> c) s"

text \<open>
  \<open>String.prototype.trim\<close>: white space and line terminators are dropped at both ends.
  A string is a list of 8-bit characters, read as the code points below 256. Among them
  the space, the five control characters from U+0009 to U+000D and the no-break space
  U+00A0 are dropped; the white space of higher code points (U+FEFF, U+2028 and the
  other space separators) has no place in this type.
\<close>

definition is_space :: "char \<Rightarrow> bool" where
  "is_space c =
     (c \<in> set [CHR '' '', CHR 0x09, CHR 0x0A, CHR 0x0B, CHR 0x0C, CHR 0x0D, CHR 0xA0])"

definition trim :: "string \<Rightarrow> string" where
  "trim s = rev (dropWhile is_space (rev (dropWhile is_space s)))"

text \<open>\<open>String.prototype.includes\<close>: the argument occurs as a contiguous piece.\<close>

fun str_includes :: "string \<Rightarrow> string \<Rightarrow> bool" where
  "str_includes [] sub = (sub = [])"
| "str_includes (c # cs) sub = (take (length sub) (c # cs) = sub \<or> str_includes cs sub)"

section \<open>Documents and collections\<close>

text \<open>
  An ObjectId is a natural number, a Date the (integer) number of milliseconds since the
  epoch.
  Each collection is the list of its documents in insertion order, the order in which
  an unsorted \<open>find\<close> returns them. Fields that no modelled operation reads (colour,
  icon, bank details, tags, recurrence, attachments, timestamps) are left out.
\<close>

type_synonym oid = nat

datatype txn_type = Income | Expense

datatype account_type = Checking | Savings | Credit | Investment | Cash

record account =
  acc_id :: oid
  acc_userId :: oid
  acc_name :: string
  acc_type :: account_type
  balance :: rat
  initialBalance :: rat
  acc_isActive :: bool
  creditLimit :: rat

record category =
  cat_id :: oid
  cat_userId :: oid
  cat_name :: string
  cat_type :: txn_type
  cat_isActive :: bool
  cat_isDefault :: bool

record transaction =
  txn_id :: oid
  txn_userId :: oid
  txn_accountId :: oid
  txn_categoryId :: oid
  txn_amount :: rat
  txn_description :: string
  txn_date :: int
  txn_type :: txn_type

record budget =
  bud_id :: oid
  bud_userId :: oid
  bud_categoryId :: oid
  bud_name :: string
  bud_amount :: rat
  bud_startDate :: int
  bud_endDate :: int
  bud_alertThreshold :: rat
  bud_isActive :: bool

record db =
  accounts :: "account list"
  categories :: "category list"
  transactions :: "transaction list"
  budgets :: "budget list"
  nextId :: oid

text \<open>What a handler answers when it does not succeed, with the HTTP status it sends.\<close>

datatype failure =
    ValidationFailed          \<comment> \<open>400, the express-validator rules of the route\<close>
  | BadRequest string         \<comment> \<open>400\<close>
  | NotFound string           \<comment> \<open>404\<close>
  | ServerError string        \<comment> \<open>500, the handler's \<open>catch\<close>\<close>
  | NoResponse                \<comment> \<open>the handler never answers\<close>

section \<open>Financial health (analyticsController.js, getFinancialHealth)\<close>

record health_scores =
  sc_savingsRate :: rat
  sc_budgetAdherence :: rat
  sc_emergencyFund :: rat
  sc_expenseControl :: rat
  sc_debtManagement :: rat

record health_report =
  overallScore :: int
  scores :: health_scores

text \<open>
  The aggregation over last month's transactions: \<open>$match\<close> on the user and on
  \<open>lastMonth \<le> date < thisMonth\<close>, \<open>$group\<close> by type with \<open>$sum\<close> of the amounts,
  then \<open>find(d => d._id === type)?.total || 0\<close>.
\<close>

definition lastMonthTotal :: "oid \<Rightarrow> int \<Rightarrow> int \<Rightarrow> txn_type \<Rightarrow> transaction list \<Rightarrow> rat" where
  "lastMonthTotal userId lastMonth thisMonth ty ts =
     sum_list (map txn_amount
       (filter (\<lambda>t. txn_userId t = userId \<and> lastMonth \<le> txn_date t \<and> txn_date t < thisMonth
                    \<and> txn_type t = ty) ts))"

text \<open>\<open>Account.find({ userId, isActive: true })\<close>.\<close>

definition activeAccounts :: "oid \<Rightarrow> db \<Rightarrow> account list" where
  "activeAccounts userId s = filter (\<lambda>a. acc_userId a = userId \<and> acc_isActive a) (accounts s)"

text \<open>The active budgets of the user whose window holds the current date.\<close>

definition currentBudgets :: "oid \<Rightarrow> int \<Rightarrow> db \<Rightarrow> budget list" where
  "currentBudgets userId currentDate s =
     filter (\<lambda>b. bud_userId b = userId \<and> bud_isActive b \<and> bud_startDate b \<le> currentDate
                  \<and> currentDate \<le> bud_endDate b) (budgets s)"

text \<open>
  Inside the loop over the budgets: the expenses of the budget's category in its window,
  and \<open>Math.abs(spent - budget.amount) / budget.amount\<close>. The budget routes accept only
  amounts greater than 0, so the divisor is not 0.
\<close>

definition budgetVariance :: "oid \<Rightarrow> transaction list \<Rightarrow> budget \<Rightarrow> rat" where
  "budgetVariance userId ts b =
     (let spent = sum_list (map txn_amount
            (filter (\<lambda>t. txn_userId t = userId \<and> txn_categoryId t = bud_categoryId b
                         \<and> txn_type t = Expense \<and> bud_startDate b \<le> txn_date t
                         \<and> txn_date t \<le> bud_endDate b) ts))
      in \<bar>spent - bud_amount b\<bar> / bud_amount b)"

text \<open>
  \<open>currentDate\<close> is \<open>new Date()\<close>; \<open>lastMonth\<close> and \<open>thisMonth\<close> are the first
  instants of the previous and of the current calendar month, which the handler computes
  from it with the runtime's calendar. The textual insights and the rounded metrics of
  the response are not modelled.

  The arithmetic is exact. In doubles the weighted sum can miss a tie by one unit in the
  last place: an income of 280 with expenses of 227, no budget, no debt and a full
  emergency fund give 86.49999999999999, which \<open>Math.round\<close> takes to 86, where the
  exact sum is 86.5, rounded to 87. At the inputs of the theorems below every
  intermediate result is a double, and the two computations agree.
\<close>

definition getFinancialHealth :: "oid \<Rightarrow> int \<Rightarrow> int \<Rightarrow> int \<Rightarrow> db \<Rightarrow> health_report" where
  "getFinancialHealth userId currentDate lastMonth thisMonth s =
     (let income = lastMonthTotal userId lastMonth thisMonth Income (transactions s);
          expenses = lastMonthTotal userId lastMonth thisMonth Expense (transactions s);
          savingsRate = (if income > 0 then ((income - expenses) / income) * 100 else 0);
          expenseRatio = (if income > 0 then (expenses / income) * 100 else 100);
          accs = activeAccounts userId s;
          totalBalance = sum_list (map balance accs);
          monthlyExpenses = expenses;
          emergencyFundRatio =
            (if monthlyExpenses > 0 then totalBalance / (monthlyExpenses * 3) else 1);
          buds = currentBudgets userId currentDate s;
          budgetScore =
            (if length buds > 0
             then max 0 (100 - (sum_list (map (budgetVariance userId (transactions s)) buds)
                                 / of_nat (length buds)) * 100)
             else 100);
          creditAccounts = filter (\<lambda>a. acc_type a = Credit) accs;
          totalDebt = sum_list (map (\<lambda>a. \<bar>balance a\<bar>) creditAccounts);
          debtToIncomeRatio = (if income > 0 then (totalDebt / income) * 100 else 0);
          sc = \<lparr> sc_savingsRate = min 100 (max 0 (savingsRate * 5)),
                 sc_budgetAdherence = of_int (Math_round budgetScore),
                 sc_emergencyFund = min 100 (emergencyFundRatio * 100),
                 sc_expenseControl = max 0 (100 - expenseRatio),
                 sc_debtManagement = max 0 (100 - debtToIncomeRatio * 2) \<rparr>;
          overall = sc_savingsRate sc * (25 / 100) +
                    sc_budgetAdherence sc * (25 / 100) +
                    sc_emergencyFund sc * (2 / 10) +
                    sc_expenseControl sc * (15 / 100) +
                    sc_debtManagement sc * (15 / 100)
      in \<lparr> overallScore = Math_round overall, scores = sc \<rparr>)"

section \<open>Accounts (models/Account.js and the account controller)\<close>

text \<open>
  The schema's \<open>pre('save')\<close> hook: \<open>if (this.isNew) this.initialBalance = this.balance\<close>.
\<close>

definition account_pre_save :: "bool \<Rightarrow> account \<Rightarrow> account" where
  "account_pre_save isNew a = (if isNew then a\<lparr>initialBalance := balance a\<rparr> else a)"

text \<open>
  \<open>account.save()\<close> of a document that was read from the collection: the hook runs with
  \<open>isNew = false\<close> and the stored document with the same \<open>_id\<close> is replaced.
\<close>

definition save_account :: "account \<Rightarrow> db \<Rightarrow> db" where
  "save_account a s =
     s\<lparr>accounts := map (\<lambda>x. if acc_id x = acc_id a then account_pre_save False a else x)
                         (accounts s)\<rparr>"

record create_account_request =
  ca_name :: string
  ca_type :: account_type
  ca_balance :: "rat option"
  ca_creditLimit :: "rat option"

text \<open>
  The rules of the route that are not already types here: the trimmed name has 1 to 100
  characters and a credit limit is not negative.
\<close>

definition createAccountValidation :: "create_account_request \<Rightarrow> bool" where
  "createAccountValidation req =
     (1 \<le> length (trim (ca_name req)) \<and> length (trim (ca_name req)) \<le> 100 \<and>
      (case ca_creditLimit req of None \<Rightarrow> True | Some l \<Rightarrow> 0 \<le> l))"

definition createAccount :: "oid \<Rightarrow> create_account_request \<Rightarrow> db \<Rightarrow> (failure + account) \<times> db" where
  "createAccount userId req s =
     (if \<not> createAccountValidation req then (Inl ValidationFailed, s)
      else if find (\<lambda>a. acc_userId a = userId \<and> acc_name a = trim (ca_name req) \<and> acc_isActive a)
                (accounts s) \<noteq> None
      then (Inl (BadRequest ''Account with this name already exists''), s)
      else
        let account = account_pre_save True
              \<lparr> acc_id = nextId s, acc_userId = userId, acc_name = trim (ca_name req),
                acc_type = ca_type req,
                balance = round_set (case ca_balance req of None \<Rightarrow> 0 | Some b \<Rightarrow> b),
                initialBalance = 0,
                acc_isActive = True,
                creditLimit = (if ca_type req = Credit
                               then (case ca_creditLimit req of None \<Rightarrow> 0 | Some l \<Rightarrow> l)
                               else 0) \<rparr>
        in (Inr account, s\<lparr>accounts := accounts s @ [account], nextId := Suc (nextId s)\<rparr>))"

text \<open>
  The payload of an account update. The handler walks \<open>Object.keys(updates)\<close> and
  assigns every key it finds to the document, so each schema field may be present or not.
  A JSON object has each key once and every key sets only its own field, so the order of
  the keys does not matter. Keys of fields that are left out of the account record are
  left out here too.
\<close>

record account_updates =
  ua_name :: "string option"
  ua_type :: "account_type option"
  ua_balance :: "rat option"
  ua_creditLimit :: "rat option"
  ua_isActive :: "bool option"
  ua_initialBalance :: "rat option"

definition updateAccountValidation :: "account_updates \<Rightarrow> bool" where
  "updateAccountValidation u =
     (case ua_name u of None \<Rightarrow> True
      | Some n \<Rightarrow> 1 \<le> length (trim n) \<and> length (trim n) \<le> 100)"

text \<open>
  The \<open>forEach\<close> over the keys: name is trimmed, balance and creditLimit go through
  \<open>Number\<close> (and balance through the schema's setter), every other key is assigned as
  it is.
\<close>

definition apply_account_updates :: "account_updates \<Rightarrow> account \<Rightarrow> account" where
  "apply_account_updates u a =
     a\<lparr> acc_name := (case ua_name u of None \<Rightarrow> acc_name a | Some n \<Rightarrow> trim n),
        acc_type := (case ua_type u of None \<Rightarrow> acc_type a | Some t \<Rightarrow> t),
        balance := (case ua_balance u of None \<Rightarrow> balance a | Some b \<Rightarrow> round_set b),
        creditLimit := (case ua_creditLimit u of None \<Rightarrow> creditLimit a | Some l \<Rightarrow> l),
        acc_isActive := (case ua_isActive u of None \<Rightarrow> acc_isActive a | Some b \<Rightarrow> b),
        initialBalance :=
          (case ua_initialBalance u of None \<Rightarrow> initialBalance a | Some b \<Rightarrow> b) \<rparr>"

text \<open>
  \<open>account.save()\<close> validates the document first: the schema's \<open>min: 0\<close> on
  creditLimit makes it throw, and the handler's \<open>catch\<close> answers 500.
\<close>

definition updateAccount :: "oid \<Rightarrow> oid \<Rightarrow> account_updates \<Rightarrow> db \<Rightarrow> (failure + account) \<times> db" where
  "updateAccount userId accountId updates s =
     (if \<not> updateAccountValidation updates then (Inl ValidationFailed, s)
      else case find (\<lambda>a. acc_id a = accountId \<and> acc_userId a = userId) (accounts s) of
        None \<Rightarrow> (Inl (NotFound ''Account not found''), s)
      | Some account \<Rightarrow>
          if (case ua_name updates of None \<Rightarrow> False
              | Some n \<Rightarrow> trim n \<noteq> acc_name account \<and>
                  find (\<lambda>a. acc_userId a = userId \<and> acc_name a = trim n \<and> acc_isActive a
                            \<and> acc_id a \<noteq> accountId) (accounts s) \<noteq> None)
          then (Inl (BadRequest ''Account with this name already exists''), s)
          else
            let account' = apply_account_updates updates account
            in if creditLimit account' < 0
               then (Inl (ServerError ''Server error while updating account''), s)
               else (Inr account', save_account account' s))"

section \<open>Transactions (transactionController.js and its route)\<close>

record create_transaction_request =
  rq_accountId :: oid
  rq_categoryId :: oid
  rq_amount :: rat
  rq_description :: string
  rq_date :: int
  rq_type :: txn_type

text \<open>
  \<open>createTransactionValidation\<close> of the route: \<open>body('amount').isFloat({ gt: 0 })\<close> and
  a trimmed description of 1 to 500 characters. The rules on the ids, the date and the
  type are the types of the request's fields.
\<close>

definition createTransactionValidation :: "create_transaction_request \<Rightarrow> bool" where
  "createTransactionValidation req =
     (rq_amount req > 0 \<and> 1 \<le> length (trim (rq_description req))
      \<and> length (trim (rq_description req)) \<le> 500)"

text \<open>
  The two blocks that all three handlers share. Applying an effect:
  \<^verbatim>\<open>if (type === 'income') account.balance += amount; else account.balance -= amount;\<close>
  and reversing one, with the signs exchanged. Each assignment passes the setter.
\<close>

definition apply_effect :: "txn_type \<Rightarrow> rat \<Rightarrow> account \<Rightarrow> account" where
  "apply_effect ty amount a =
     (if ty = Income then a\<lparr>balance := round_set (balance a + amount)\<rparr>
      else a\<lparr>balance := round_set (balance a - amount)\<rparr>)"

definition reverse_effect :: "txn_type \<Rightarrow> rat \<Rightarrow> account \<Rightarrow> account" where
  "reverse_effect ty amount a =
     (if ty = Income then a\<lparr>balance := round_set (balance a - amount)\<rparr>
      else a\<lparr>balance := round_set (balance a + amount)\<rparr>)"

definition createTransaction ::
  "oid \<Rightarrow> create_transaction_request \<Rightarrow> db \<Rightarrow> (failure + transaction) \<times> db" where
  "createTransaction userId req s =
     (if \<not> createTransactionValidation req then (Inl ValidationFailed, s)
      else case find (\<lambda>a. acc_id a = rq_accountId req \<and> acc_userId a = userId \<and> acc_isActive a)
                  (accounts s) of
        None \<Rightarrow> (Inl (NotFound ''Account not found or inactive''), s)
      | Some account \<Rightarrow>
         (case find (\<lambda>c. cat_id c = rq_categoryId req \<and> cat_userId c = userId
                         \<and> cat_type c = rq_type req \<and> cat_isActive c) (categories s) of
            None \<Rightarrow> (Inl (NotFound ''Category not found, inactive, or type mismatch''), s)
          | Some category \<Rightarrow>
             let transactionAmount = \<bar>rq_amount req\<bar>
             in if transactionAmount \<le> 0
                then (Inl (BadRequest ''Amount must be greater than 0''), s)
                else
                  let transaction =
                        \<lparr> txn_id = nextId s, txn_userId = userId,
                          txn_accountId = rq_accountId req, txn_categoryId = rq_categoryId req,
                          txn_amount = round_set transactionAmount,
                          txn_description = trim (rq_description req),
                          txn_date = rq_date req, txn_type = rq_type req \<rparr>;
                      s1 = s\<lparr>transactions := transactions s @ [transaction],
                             nextId := Suc (nextId s)\<rparr>;
                      account' = apply_effect (rq_type req) transactionAmount account
                  in (Inr transaction, save_account account' s1)))"

text \<open>
  The payload of a transaction update: each field may be present or not. Keys of fields
  that are left out of the transaction record are left out here too.
\<close>

record transaction_updates =
  up_accountId :: "oid option"
  up_categoryId :: "oid option"
  up_amount :: "rat option"
  up_description :: "string option"
  up_date :: "int option"
  up_type :: "txn_type option"

definition updateTransactionValidation :: "transaction_updates \<Rightarrow> bool" where
  "updateTransactionValidation u =
     ((case up_amount u of None \<Rightarrow> True | Some a \<Rightarrow> a > 0) \<and>
      (case up_description u of None \<Rightarrow> True
       | Some d \<Rightarrow> 1 \<le> length (trim d) \<and> length (trim d) \<le> 500))"

text \<open>
  The \<open>forEach\<close> over the keys of the payload: amount becomes
  \<open>Math.abs(Number(...))\<close> and passes the schema's setter, description is trimmed, every
  other key is assigned as it is.
\<close>

definition apply_transaction_updates :: "transaction_updates \<Rightarrow> transaction \<Rightarrow> transaction" where
  "apply_transaction_updates u t =
     t\<lparr> txn_accountId := (case up_accountId u of None \<Rightarrow> txn_accountId t | Some a \<Rightarrow> a),
        txn_categoryId := (case up_categoryId u of None \<Rightarrow> txn_categoryId t | Some c \<Rightarrow> c),
        txn_amount := (case up_amount u of None \<Rightarrow> txn_amount t | Some v \<Rightarrow> round_set \<bar>v\<bar>),
        txn_description :=
          (case up_description u of None \<Rightarrow> txn_description t | Some d \<Rightarrow> trim d),
        txn_date := (case up_date u of None \<Rightarrow> txn_date t | Some d \<Rightarrow> d),
        txn_type := (case up_type u of None \<Rightarrow> txn_type t | Some ty \<Rightarrow> ty) \<rparr>"

definition save_transaction :: "transaction \<Rightarrow> db \<Rightarrow> db" where
  "save_transaction t s =
     s\<lparr>transactions := map (\<lambda>x. if txn_id x = txn_id t then t else x) (transactions s)\<rparr>"

text \<open>\<open>Account.findById\<close>.\<close>

definition findAccountById :: "oid \<Rightarrow> db \<Rightarrow> account option" where
  "findAccountById i s = find (\<lambda>a. acc_id a = i) (accounts s)"

text \<open>
  The part of \<open>updateTransaction\<close> under the comment "Update account balances": the old
  account loses the old effect, the account the saved transaction now names gains the new
  one; when both are the same document it is saved once. When \<open>Account.findById\<close>
  finds nothing, reading \<open>.balance\<close> of \<open>null\<close> throws (\<open>None\<close>).
\<close>

definition update_account_balances ::
  "oid \<Rightarrow> txn_type \<Rightarrow> rat \<Rightarrow> transaction \<Rightarrow> db \<Rightarrow> db option" where
  "update_account_balances oldAccountId oldType oldAmount existingTransaction s =
     (case findAccountById oldAccountId s of
        None \<Rightarrow> None
      | Some oldAccount \<Rightarrow>
         let newAccountId = txn_accountId existingTransaction
         in if oldAccountId = newAccountId
            then Some (save_account
                   (apply_effect (txn_type existingTransaction) (txn_amount existingTransaction)
                      (reverse_effect oldType oldAmount oldAccount)) s)
            else
              (case findAccountById newAccountId s of
                 None \<Rightarrow> None
               | Some newAccount \<Rightarrow>
                   Some (save_account
                     (apply_effect (txn_type existingTransaction)
                        (txn_amount existingTransaction) newAccount)
                     (save_account (reverse_effect oldType oldAmount oldAccount) s))))"

text \<open>
  The handler. A throw after the transaction has been saved is answered with 500 by the
  handler's \<open>catch\<close>, and the saved transaction stays.
\<close>

definition updateTransaction ::
  "oid \<Rightarrow> oid \<Rightarrow> transaction_updates \<Rightarrow> db \<Rightarrow> (failure + transaction) \<times> db" where
  "updateTransaction userId transactionId updates s =
     (if \<not> updateTransactionValidation updates then (Inl ValidationFailed, s)
      else case find (\<lambda>t. txn_id t = transactionId \<and> txn_userId t = userId) (transactions s) of
        None \<Rightarrow> (Inl (NotFound ''Transaction not found''), s)
      | Some existingTransaction \<Rightarrow>
         let oldAmount = txn_amount existingTransaction;
             oldType = txn_type existingTransaction;
             oldAccountId = txn_accountId existingTransaction
         in
         if (case up_accountId updates of None \<Rightarrow> False
             | Some a \<Rightarrow> a \<noteq> oldAccountId \<and>
                 find (\<lambda>x. acc_id x = a \<and> acc_userId x = userId \<and> acc_isActive x)
                   (accounts s) = None)
         then (Inl (NotFound ''New account not found or inactive''), s)
         else if (case up_categoryId updates of None \<Rightarrow> False
             | Some c \<Rightarrow>
                 find (\<lambda>k. cat_id k = c \<and> cat_userId k = userId
                           \<and> cat_type k = (case up_type updates of Some ty \<Rightarrow> ty
                                           | None \<Rightarrow> txn_type existingTransaction)
                           \<and> cat_isActive k) (categories s) = None)
         then (Inl (NotFound ''New category not found, inactive, or type mismatch''), s)
         else
           let updated = apply_transaction_updates updates existingTransaction;
               s1 = save_transaction updated s
           in case update_account_balances oldAccountId oldType oldAmount updated s1 of
                None \<Rightarrow> (Inl (ServerError ''Server error while updating transaction''), s1)
              | Some s2 \<Rightarrow> (Inr updated, s2))"

definition deleteTransaction :: "oid \<Rightarrow> oid \<Rightarrow> db \<Rightarrow> (failure + unit) \<times> db" where
  "deleteTransaction userId transactionId s =
     (case find (\<lambda>t. txn_id t = transactionId \<and> txn_userId t = userId) (transactions s) of
        None \<Rightarrow> (Inl (NotFound ''Transaction not found''), s)
      | Some transaction \<Rightarrow>
         let s1 = (case findAccountById (txn_accountId transaction) s of
                     None \<Rightarrow> s
                   | Some account \<Rightarrow>
                      save_account
                        (reverse_effect (txn_type transaction) (txn_amount transaction) account)
                        s)
         in (Inr (), s1\<lparr>transactions :=
                          filter (\<lambda>t. txn_id t \<noteq> txn_id transaction) (transactions s1)\<rparr>))"

section \<open>Bulk import (transactionController.js, bulkImportTransactions)\<close>

text \<open>
  A row of the batch. The amount is a JSON number or is missing; the date string is
  represented by what \<open>new Date\<close> makes of it: \<open>NoDate\<close> is the empty or missing
  string, \<open>InvalidDate\<close> a text that is no date.

  The description, the category and the tags are JSON values of which the loop expects
  strings: \<open>Absent\<close> is a missing field or a falsy value that is no string, \<open>Text\<close> a
  string (falsy when empty), \<open>NotText\<close> a truthy value that is no string, such as the
  array of tags in a row of the upload preview. Such a value has none of the string
  methods, and calling one throws a \<open>TypeError\<close>, whose message (in the wording of V8)
  names the callee.
\<close>

datatype js_date = NoDate | InvalidDate | ValidDate int

datatype js_text = Absent | Text string | NotText

definition falsy :: "js_text \<Rightarrow> bool" where
  "falsy v = (case v of Absent \<Rightarrow> True | Text t \<Rightarrow> t = [] | NotText \<Rightarrow> False)"

definition not_a_function :: "string \<Rightarrow> string" where
  "not_a_function callee = callee @ '' is not a function''"

record import_row =
  row_amount :: "rat option"
  row_description :: js_text
  row_date :: js_date
  row_category :: js_text
  row_tags :: js_text

text \<open>An element of \<open>validTransactions\<close>: a plain object, not yet a document.\<close>

record new_transaction =
  nt_userId :: oid
  nt_accountId :: oid
  nt_categoryId :: oid
  nt_amount :: rat
  nt_description :: string
  nt_date :: js_date
  nt_type :: txn_type

definition type_name :: "txn_type \<Rightarrow> string" where
  "type_name ty = (case ty of Income \<Rightarrow> ''income'' | Expense \<Rightarrow> ''expense'')"

text \<open>
  The body of the \<open>for\<close> loop for one row: \<open>Inl\<close> is the message pushed to
  \<open>errors\<close>, \<open>Inr\<close> the object pushed to \<open>validTransactions\<close>. \<open>!txn.amount\<close>
  holds for a missing amount and for 0. The body is a \<open>try\<close> block, whose \<open>catch\<close>
  pushes the message of what was thrown: \<open>(txn.category || 'other').toLowerCase()\<close> is
  evaluated for the first category that \<open>find\<close> visits, \<open>txn.description.trim()\<close> and
  \<open>txn.tags.split(',')\<close>, in this order, when the object is built. The tags of the
  object are not modelled further: the Transaction documents of this theory have none.
\<close>

definition import_row_step ::
  "oid \<Rightarrow> account \<Rightarrow> category list \<Rightarrow> import_row \<Rightarrow> string + new_transaction" where
  "import_row_step userId account userCategories txn =
     (case row_amount txn of
        None \<Rightarrow> Inl ''Missing required fields''
      | Some v \<Rightarrow>
         if v = 0 \<or> falsy (row_description txn) \<or> row_date txn = NoDate
         then Inl ''Missing required fields''
         else
           let amount = \<bar>v\<bar>
           in if amount \<le> 0 then Inl ''Invalid amount''
              else if row_category txn = NotText \<and> userCategories \<noteq> []
              then Inl (not_a_function
                          (''(txn.category || '' @ [CHR 0x22] @ ''other'' @ [CHR 0x22]
                           @ '').toLowerCase''))
              else
                let type = (if v \<ge> 0 then Income else Expense);
                    wanted = toLowerCase
                      (case row_category txn of
                         Text c \<Rightarrow> if c = [] then ''other'' else c
                       | _ \<Rightarrow> ''other'');
                    category =
                      (case find (\<lambda>cat. str_includes (toLowerCase (cat_name cat)) wanted
                                         \<and> cat_type cat = type) userCategories of
                         Some c \<Rightarrow> Some c
                       | None \<Rightarrow> find (\<lambda>cat. cat_type cat = type) userCategories)
                in case category of
                     None \<Rightarrow> Inl (''No '' @ type_name type @ '' category found'')
                   | Some c \<Rightarrow>
                       (case row_description txn of
                          Text description \<Rightarrow>
                            if row_tags txn = NotText
                            then Inl (not_a_function ''txn.tags.split'')
                            else
                              Inr \<lparr> nt_userId = userId, nt_accountId = acc_id account,
                                    nt_categoryId = cat_id c, nt_amount = amount,
                                    nt_description = trim description,
                                    nt_date = row_date txn, nt_type = type \<rparr>
                        | _ \<Rightarrow> Inl (not_a_function ''txn.description.trim'')))"

text \<open>
  The loop over the rows from index \<open>i\<close> on: the valid transactions and the errors
  (1-based row number and message), both in row order.
\<close>

fun import_loop ::
  "oid \<Rightarrow> account \<Rightarrow> category list \<Rightarrow> nat \<Rightarrow> import_row list
    \<Rightarrow> new_transaction list \<times> (nat \<times> string) list" where
  "import_loop userId account userCategories i [] = ([], [])"
| "import_loop userId account userCategories i (txn # rest) =
     (let (valid, errors) = import_loop userId account userCategories (Suc i) rest
      in case import_row_step userId account userCategories txn of
           Inl e \<Rightarrow> (valid, (i + 1, e) # errors)
         | Inr t \<Rightarrow> (t # valid, errors))"

text \<open>
  \<open>Transaction.insertMany\<close> validates every object against the schema before it writes
  any: a description that is empty after trimming or longer than 500 characters, or a
  date that is no date, makes it throw and nothing is inserted (\<open>None\<close>). Otherwise the
  documents are appended with fresh ids, the amount having passed the schema's setter.
\<close>

definition new_transaction_valid :: "new_transaction \<Rightarrow> bool" where
  "new_transaction_valid t =
     (nt_description t \<noteq> [] \<and> length (nt_description t) \<le> 500 \<and>
      (case nt_date t of ValidDate d \<Rightarrow> True | _ \<Rightarrow> False))"

fun to_documents :: "oid \<Rightarrow> new_transaction list \<Rightarrow> transaction list" where
  "to_documents i [] = []"
| "to_documents i (t # ts) =
     \<lparr> txn_id = i, txn_userId = nt_userId t, txn_accountId = nt_accountId t,
       txn_categoryId = nt_categoryId t, txn_amount = round_set (nt_amount t),
       txn_description = nt_description t,
       txn_date = (case nt_date t of ValidDate d \<Rightarrow> d | _ \<Rightarrow> 0),
       txn_type = nt_type t \<rparr> # to_documents (Suc i) ts"

definition insertMany :: "new_transaction list \<Rightarrow> db \<Rightarrow> (transaction list \<times> db) option" where
  "insertMany ts s =
     (if list_all new_transaction_valid ts
      then let docs = to_documents (nextId s) ts
           in Some (docs, s\<lparr>transactions := transactions s @ docs,
                              nextId := nextId s + length ts\<rparr>)
      else None)"

text \<open>
  \<open>accountUpdates\<close> is a JavaScript \<open>Map\<close> from account id to balance change: a list
  of entries in insertion order. \<open>get(k) || 0\<close> and \<open>set(k, v)\<close>:
\<close>

definition map_get_or_0 :: "(oid \<times> rat) list \<Rightarrow> oid \<Rightarrow> rat" where
  "map_get_or_0 m k = (case map_of m k of None \<Rightarrow> 0 | Some v \<Rightarrow> v)"

definition map_set :: "oid \<Rightarrow> rat \<Rightarrow> (oid \<times> rat) list \<Rightarrow> (oid \<times> rat) list" where
  "map_set k v m =
     (if map_of m k = None then m @ [(k, v)]
      else map (\<lambda>(k', v'). if k' = k then (k', v) else (k', v')) m)"

text \<open>The loop that fills the map from \<open>validTransactions\<close>.\<close>

fun accountUpdates :: "(oid \<times> rat) list \<Rightarrow> new_transaction list \<Rightarrow> (oid \<times> rat) list" where
  "accountUpdates m [] = m"
| "accountUpdates m (txn # rest) =
     (let currentUpdate = map_get_or_0 m (nt_accountId txn)
      in accountUpdates
           (if nt_type txn = Income
            then map_set (nt_accountId txn) (currentUpdate + nt_amount txn) m
            else map_set (nt_accountId txn) (currentUpdate - nt_amount txn) m)
           rest)"

text \<open>
  The update operator \<open>$inc\<close> on the balance, as the database executes it: the operand
  is added to the stored balance of the document with that id. No document is loaded and
  saved, so the sum itself passes no setter and no save hook runs.
\<close>

definition inc_balance :: "oid \<Rightarrow> rat \<Rightarrow> account list \<Rightarrow> account list" where
  "inc_balance accountId operand as =
     map (\<lambda>a. if acc_id a = accountId then a\<lparr>balance := balance a + operand\<rparr> else a) as"

text \<open>
  \<open>Account.findByIdAndUpdate(accountId, { $inc: { balance: balanceChange } })\<close>:
  Mongoose casts the update before it sends it, and casting the operand of \<open>$inc\<close> to
  the schema type of \<open>balance\<close> runs the setter of that path on it. The database
  receives the change rounded to cents.
\<close>

definition findByIdAndUpdate_inc_balance :: "oid \<Rightarrow> rat \<Rightarrow> db \<Rightarrow> db" where
  "findByIdAndUpdate_inc_balance accountId balanceChange s =
     s\<lparr>accounts := inc_balance accountId (round_set balanceChange) (accounts s)\<rparr>"

text \<open>The loop over the entries of the map: one update of one account for each entry.\<close>

fun apply_balance_updates :: "(oid \<times> rat) list \<Rightarrow> db \<Rightarrow> db" where
  "apply_balance_updates [] s = s"
| "apply_balance_updates ((accountId, balanceChange) # rest) s =
     apply_balance_updates rest (findByIdAndUpdate_inc_balance accountId balanceChange s)"

text \<open>\<open>Category.find({ userId, isActive: true })\<close>.\<close>

definition activeCategories :: "oid \<Rightarrow> db \<Rightarrow> category list" where
  "activeCategories userId s =
     filter (\<lambda>c. cat_userId c = userId \<and> cat_isActive c) (categories s)"

record import_result =
  imported :: nat
  errors :: nat
  total :: nat
  details :: "(nat \<times> string) list"

definition bulkImportTransactions ::
  "oid \<Rightarrow> import_row list \<Rightarrow> db \<Rightarrow> (failure + import_result) \<times> db" where
  "bulkImportTransactions userId rows s =
     (if rows = [] then (Inl (BadRequest ''Invalid transactions data''), s)
      else case activeAccounts userId s of
        [] \<Rightarrow> (Inl (BadRequest ''No active accounts found. Please create an account first.''), s)
      | account # others \<Rightarrow>
         let userCategories = activeCategories userId s;
             (validTransactions, errs) = import_loop userId account userCategories 0 rows
         in if validTransactions = []
            then (Inr \<lparr> imported = 0, errors = length errs, total = length rows,
                        details = errs \<rparr>, s)
            else case insertMany validTransactions s of
                   None \<Rightarrow> (Inl (ServerError ''Server error during bulk import''), s)
                 | Some (insertedTransactions, s1) \<Rightarrow>
                     (Inr \<lparr> imported = length insertedTransactions, errors = length errs,
                            total = length rows, details = errs \<rparr>,
                      apply_balance_updates (accountUpdates [] validTransactions) s1))"

section \<open>Budgets (budgetController.js)\<close>

text \<open>
  Modelled from the spec: the Budget schema (models/Budget.js) is not among the sources,
  so the default of \<open>isActive\<close>, which \<open>createBudget\<close> leaves to the schema, is not
  visible. The spec calls Active a soft-delete flag, and the handlers look for
  \<open>isActive: true\<close> among the budgets they have created: a new budget is active.
\<close>

definition budget_default_isActive :: bool where
  "budget_default_isActive = True"

record create_budget_request =
  cb_categoryId :: oid
  cb_name :: string
  cb_amount :: rat
  cb_startDate :: int
  cb_endDate :: int
  cb_alertThreshold :: "rat option"

definition createBudgetValidation :: "create_budget_request \<Rightarrow> bool" where
  "createBudgetValidation req =
     (1 \<le> length (trim (cb_name req)) \<and> length (trim (cb_name req)) \<le> 100 \<and>
      cb_amount req > 0 \<and>
      (case cb_alertThreshold req of
         None \<Rightarrow> True
       | Some a \<Rightarrow> of_int \<lfloor>a\<rfloor> = a \<and> 0 \<le> a \<and> a \<le> 100))"

definition createBudget :: "oid \<Rightarrow> create_budget_request \<Rightarrow> db \<Rightarrow> (failure + budget) \<times> db" where
  "createBudget userId req s =
     (if \<not> createBudgetValidation req then (Inl ValidationFailed, s)
      else if find (\<lambda>c. cat_id c = cb_categoryId req \<and> cat_userId c = userId
                        \<and> cat_type c = Expense \<and> cat_isActive c) (categories s) = None
      then (Inl (NotFound ''Category not found or not an expense category''), s)
      else if find (\<lambda>b. bud_userId b = userId \<and> bud_categoryId b = cb_categoryId req
                        \<and> bud_isActive b \<and> bud_startDate b \<le> cb_endDate req
                        \<and> bud_endDate b \<ge> cb_startDate req) (budgets s) \<noteq> None
      then (Inl (BadRequest
              ''A budget for this category already exists in the specified date range''), s)
      else if cb_startDate req \<ge> cb_endDate req
      then (Inl (BadRequest ''End date must be after start date''), s)
      else
        let budget = \<lparr> bud_id = nextId s, bud_userId = userId,
                       bud_categoryId = cb_categoryId req, bud_name = trim (cb_name req),
                       bud_amount = cb_amount req, bud_startDate = cb_startDate req,
                       bud_endDate = cb_endDate req,
                       bud_alertThreshold =
                         (case cb_alertThreshold req of None \<Rightarrow> 80 | Some a \<Rightarrow> a),
                       bud_isActive = budget_default_isActive \<rparr>
        in (Inr budget, s\<lparr>budgets := budgets s @ [budget], nextId := Suc (nextId s)\<rparr>))"

record budget_updates =
  ub_categoryId :: "oid option"
  ub_name :: "string option"
  ub_amount :: "rat option"
  ub_startDate :: "int option"
  ub_endDate :: "int option"
  ub_alertThreshold :: "rat option"
  ub_isActive :: "bool option"

definition updateBudgetValidation :: "budget_updates \<Rightarrow> bool" where
  "updateBudgetValidation u =
     ((case ub_name u of None \<Rightarrow> True | Some n \<Rightarrow> 1 \<le> length (trim n) \<and> length (trim n) \<le> 100)
      \<and> (case ub_amount u of None \<Rightarrow> True | Some a \<Rightarrow> a > 0))"

definition apply_budget_updates :: "budget_updates \<Rightarrow> budget \<Rightarrow> budget" where
  "apply_budget_updates u b =
     b\<lparr> bud_categoryId := (case ub_categoryId u of None \<Rightarrow> bud_categoryId b | Some c \<Rightarrow> c),
        bud_name := (case ub_name u of None \<Rightarrow> bud_name b | Some n \<Rightarrow> trim n),
        bud_amount := (case ub_amount u of None \<Rightarrow> bud_amount b | Some a \<Rightarrow> a),
        bud_startDate := (case ub_startDate u of None \<Rightarrow> bud_startDate b | Some d \<Rightarrow> d),
        bud_endDate := (case ub_endDate u of None \<Rightarrow> bud_endDate b | Some d \<Rightarrow> d),
        bud_alertThreshold :=
          (case ub_alertThreshold u of None \<Rightarrow> bud_alertThreshold b | Some a \<Rightarrow> a),
        bud_isActive := (case ub_isActive u of None \<Rightarrow> bud_isActive b | Some a \<Rightarrow> a) \<rparr>"

definition updateBudget :: "oid \<Rightarrow> oid \<Rightarrow> budget_updates \<Rightarrow> db \<Rightarrow> (failure + budget) \<times> db" where
  "updateBudget userId budgetId updates s =
     (if \<not> updateBudgetValidation updates then (Inl ValidationFailed, s)
      else case find (\<lambda>b. bud_id b = budgetId \<and> bud_userId b = userId) (budgets s) of
        None \<Rightarrow> (Inl (NotFound ''Budget not found''), s)
      | Some budget \<Rightarrow>
         if (case ub_categoryId updates of None \<Rightarrow> False
             | Some c \<Rightarrow> c \<noteq> bud_categoryId budget \<and>
                 find (\<lambda>k. cat_id k = c \<and> cat_userId k = userId \<and> cat_type k = Expense
                           \<and> cat_isActive k) (categories s) = None)
         then (Inl (NotFound ''New category not found or not an expense category''), s)
         else
           let newStartDate =
                 (case ub_startDate updates of Some d \<Rightarrow> d | None \<Rightarrow> bud_startDate budget);
               newEndDate =
                 (case ub_endDate updates of Some d \<Rightarrow> d | None \<Rightarrow> bud_endDate budget)
           in if newStartDate \<ge> newEndDate
              then (Inl (BadRequest ''End date must be after start date''), s)
              else
                let budget' = apply_budget_updates updates budget
                in (Inr budget',
                    s\<lparr>budgets := map (\<lambda>x. if bud_id x = bud_id budget' then budget' else x)
                                      (budgets s)\<rparr>))"

section \<open>Upload (uploadController.js)\<close>

text \<open>
  \<open>path.extname\<close>: the piece of the last path segment from its last dot on, empty when
  the segment has no dot or only a leading one.
\<close>

definition basename :: "string \<Rightarrow> string" where
  "basename p = rev (takeWhile (\<lambda>c. c \<noteq> CHR ''/'') (rev p))"

definition extname :: "string \<Rightarrow> string" where
  "extname p =
     (let b = basename p;
          e = rev (takeWhile (\<lambda>c. c \<noteq> CHR ''.'') (rev b))
      in if CHR ''.'' \<notin> set b \<or> b = ''..'' \<or> length e + 1 = length b then []
         else CHR ''.'' # e)"

record uploaded_file =
  originalname :: string
  path :: string

text \<open>
  The disk is the list of the paths of the files in the upload directory.
  \<open>fs.unlink\<close> removes a file and fails (\<open>None\<close>) when there is none.
\<close>

definition unlinkAsync :: "string \<Rightarrow> string list \<Rightarrow> string list option" where
  "unlinkAsync p fs = (if p \<in> set fs then Some (removeAll p fs) else None)"

definition fileFilter :: "string \<Rightarrow> bool" where
  "fileFilter name = (toLowerCase (extname name) \<in> set [''.csv'', ''.xlsx'', ''.xls''])"

text \<open>
  The multer middleware \<open>upload.single('file')\<close>: a file that passes the filter is
  written under the generated name \<open>stored\<close> and handed to the handler as \<open>req.file\<close>;
  one that does not pass is refused before anything is written.
\<close>

definition upload ::
  "string option \<Rightarrow> string \<Rightarrow> string list \<Rightarrow> (failure + uploaded_file option) \<times> string list" where
  "upload file stored fs =
     (case file of
        None \<Rightarrow> (Inr None, fs)
      | Some name \<Rightarrow>
          if fileFilter name
          then (Inr (Some \<lparr> originalname = name, path = stored \<rparr>), fs @ [stored])
          else (Inl (ServerError ''Only CSV and Excel files are allowed''), fs))"

text \<open>
  What \<open>parseCsvFile\<close> followed by \<open>mapCsvToTransactions\<close> comes to on a stored
  file. \<open>Parsed\<close>: the parser stream ends, the promise resolves, and the rows are mapped
  to the transactions of the preview. \<open>ParseFailed\<close>: the parser stream emits an error
  and the promise rejects with it. \<open>ReadFailed\<close>: the read stream of the file emits an
  error. \<open>pipe\<close> returns its destination, so the \<open>error\<close> listener of \<open>parseCsvFile\<close>
  sits on the parser stream only and \<open>pipe\<close> forwards no error: the promise never
  settles and the error of the read stream has no listener.
\<close>

datatype 'a csv_outcome = ReadFailed | ParseFailed string | Parsed "'a list"

text \<open>
  The handler. On a rejected promise the inner \<open>catch\<close> unlinks the file, ignores a
  failure of that, and rethrows to the outer \<open>catch\<close>, which answers 500. On an error
  of the read stream the handler never resumes: it answers nothing and removes nothing.
\<close>

definition uploadTransactions ::
  "uploaded_file option \<Rightarrow> (string \<Rightarrow> 'a csv_outcome) \<Rightarrow> string list
    \<Rightarrow> (failure + 'a list) \<times> string list" where
  "uploadTransactions file parseCsv fs =
     (case file of
        None \<Rightarrow> (Inl (BadRequest ''No file uploaded''), fs)
      | Some f \<Rightarrow>
          if toLowerCase (extname (originalname f)) = ''.csv''
          then
            (case parseCsv (path f) of
               ReadFailed \<Rightarrow> (Inl NoResponse, fs)
             | ParseFailed e \<Rightarrow>
                 (Inl (ServerError (''Error processing file: '' @ e)),
                  (case unlinkAsync (path f) fs of Some fs' \<Rightarrow> fs' | None \<Rightarrow> fs))
             | Parsed txns \<Rightarrow>
                 (case unlinkAsync (path f) fs of
                    None \<Rightarrow> (Inl (ServerError ''Error processing file: unlink''), fs)
                  | Some fs' \<Rightarrow>
                      if txns = []
                      then (Inl (BadRequest ''No valid transactions found in file''), fs')
                      else (Inr txns, fs')))
          else (Inl (BadRequest ''Excel files not yet supported''), fs))"

text \<open>The route \<open>POST /transactions\<close>: the middleware, then the handler.\<close>

definition post_upload_transactions ::
  "string option \<Rightarrow> string \<Rightarrow> (string \<Rightarrow> 'a csv_outcome) \<Rightarrow> string list
    \<Rightarrow> (failure + 'a list) \<times> string list" where
  "post_upload_transactions file stored parseCsv fs =
     (case upload file stored fs of
        (Inl e, fs') \<Rightarrow> (Inl e, fs')
      | (Inr f, fs') \<Rightarrow> uploadTransactions f parseCsv fs')"

section \<open>Sequences of requests\<close>

text \<open>
  The requests to the account and transaction routes, the state a request leaves behind,
  and the state after a list of requests handled one after the other.
\<close>

datatype request =
    CreateAccount oid create_account_request
  | UpdateAccount oid oid account_updates
  | CreateTransaction oid create_transaction_request
  | UpdateTransaction oid oid transaction_updates
  | DeleteTransaction oid oid
  | BulkImport oid "import_row list"

fun handle :: "request \<Rightarrow> db \<Rightarrow> db" where
  "handle (CreateAccount userId req) s = snd (createAccount userId req s)"
| "handle (UpdateAccount userId accountId updates) s = snd (updateAccount userId accountId updates s)"
| "handle (CreateTransaction userId req) s = snd (createTransaction userId req s)"
| "handle (UpdateTransaction userId transactionId updates) s =
     snd (updateTransaction userId transactionId updates s)"
| "handle (DeleteTransaction userId transactionId) s = snd (deleteTransaction userId transactionId s)"
| "handle (BulkImport userId rows) s = snd (bulkImportTransactions userId rows s)"

definition run :: "request list \<Rightarrow> db \<Rightarrow> db" where
  "run rs s = fold handle rs s"


section \<open>Example states\<close>

text \<open>
  User 1 with one checking account, an income and an expense category, an income of 2000
  and an expense of 1600 dated in March 2024; the health score is asked for in April 2024.
  The account was opened with 400 less than its balance \<open>bal\<close> is now.
\<close>

definition march_2024 :: int where "march_2024 = 1709251200000"
definition april_2024 :: int where "april_2024 = 1711929600000"
definition mid_april_2024 :: int where "mid_april_2024 = 1713139200000"

definition salary_cat :: category where
  "salary_cat = \<lparr> cat_id = 20, cat_userId = 1, cat_name = ''Salary'', cat_type = Income,
                   cat_isActive = True, cat_isDefault = True \<rparr>"

definition food_cat :: category where
  "food_cat = \<lparr> cat_id = 21, cat_userId = 1, cat_name = ''Food & Dining'', cat_type = Expense,
                 cat_isActive = True, cat_isDefault = True \<rparr>"

definition health_db :: "rat \<Rightarrow> db" where
  "health_db bal =
     \<lparr> accounts = [\<lparr> acc_id = 10, acc_userId = 1, acc_name = ''Main Checking'',
                      acc_type = Checking, balance = bal, initialBalance = bal - 400,
                      acc_isActive = True, creditLimit = 0 \<rparr>],
       categories = [salary_cat, food_cat],
       transactions =
         [\<lparr> txn_id = 30, txn_userId = 1, txn_accountId = 10, txn_categoryId = 20,
            txn_amount = 2000, txn_description = ''Pay'', txn_date = march_2024 + 1000,
            txn_type = Income \<rparr>,
          \<lparr> txn_id = 31, txn_userId = 1, txn_accountId = 10, txn_categoryId = 21,
            txn_amount = 1600, txn_description = ''Rent'', txn_date = march_2024 + 2000,
            txn_type = Expense \<rparr>],
       budgets = [],
       nextId = 40 \<rparr>"

definition may_2024 :: int where "may_2024 = 1714521600000"
definition jan_1_2024 :: int where "jan_1_2024 = 1704067200000"

text \<open>User 1 before any account exists, and after the account Wallet has been created.\<close>

definition base_db :: db where
  "base_db = \<lparr> accounts = [], categories = [salary_cat, food_cat], transactions = [],
               budgets = [], nextId = 100 \<rparr>"

definition wallet_request :: create_account_request where
  "wallet_request = \<lparr> ca_name = ''Wallet'', ca_type = Cash, ca_balance = Some 0,
                      ca_creditLimit = None \<rparr>"

definition wallet :: "rat \<Rightarrow> account" where
  "wallet b = \<lparr> acc_id = 100, acc_userId = 1, acc_name = ''Wallet'', acc_type = Cash,
                balance = b, initialBalance = 0, acc_isActive = True, creditLimit = 0 \<rparr>"

definition wallet_db :: db where
  "wallet_db = base_db\<lparr>accounts := [wallet 0], nextId := 101\<rparr>"

text \<open>An expense of half a cent.\<close>

definition half_cent_expense :: create_transaction_request where
  "half_cent_expense = \<lparr> rq_accountId = 100, rq_categoryId = 21, rq_amount = 1 / 200,
       rq_description = ''Gum'', rq_date = march_2024, rq_type = Expense \<rparr>"

definition gum :: transaction where
  "gum = \<lparr> txn_id = 101, txn_userId = 1, txn_accountId = 100, txn_categoryId = 21,
           txn_amount = 1 / 100, txn_description = ''Gum'', txn_date = march_2024,
           txn_type = Expense \<rparr>"

text \<open>An expense in the expense category Food, and an update that carries only a type.\<close>

definition coffee_request :: create_transaction_request where
  "coffee_request = \<lparr> rq_accountId = 100, rq_categoryId = 21, rq_amount = 7 / 2,
       rq_description = ''Coffee'', rq_date = march_2024, rq_type = Expense \<rparr>"

definition coffee :: "txn_type \<Rightarrow> transaction" where
  "coffee ty = \<lparr> txn_id = 101, txn_userId = 1, txn_accountId = 100, txn_categoryId = 21,
                 txn_amount = 7 / 2, txn_description = ''Coffee'', txn_date = march_2024,
                 txn_type = ty \<rparr>"

definition coffee_db :: "txn_type \<Rightarrow> rat \<Rightarrow> db" where
  "coffee_db ty b =
     base_db\<lparr>accounts := [wallet b], transactions := [coffee ty], nextId := 102\<rparr>"

definition type_only_update :: transaction_updates where
  "type_only_update = \<lparr> up_accountId = None, up_categoryId = None, up_amount = None,
       up_description = None, up_date = None, up_type = Some Income \<rparr>"

text \<open>Two budgets for the category Food, and an update that moves a start date.\<close>

definition march_budget :: create_budget_request where
  "march_budget = \<lparr> cb_categoryId = 21, cb_name = ''Food in March'', cb_amount = 300,
      cb_startDate = march_2024, cb_endDate = april_2024, cb_alertThreshold = None \<rparr>"

definition spring_budget :: "int \<Rightarrow> create_budget_request" where
  "spring_budget start = \<lparr> cb_categoryId = 21, cb_name = ''Food in spring'', cb_amount = 250,
      cb_startDate = start, cb_endDate = may_2024, cb_alertThreshold = None \<rparr>"

definition stored_march_budget :: budget where
  "stored_march_budget = \<lparr> bud_id = 100, bud_userId = 1, bud_categoryId = 21,
      bud_name = ''Food in March'', bud_amount = 300, bud_startDate = march_2024,
      bud_endDate = april_2024, bud_alertThreshold = 80, bud_isActive = True \<rparr>"

definition stored_spring_budget :: "int \<Rightarrow> budget" where
  "stored_spring_budget start = \<lparr> bud_id = 101, bud_userId = 1, bud_categoryId = 21,
      bud_name = ''Food in spring'', bud_amount = 250, bud_startDate = start,
      bud_endDate = may_2024, bud_alertThreshold = 80, bud_isActive = True \<rparr>"

definition budget_db :: "budget list \<Rightarrow> db" where
  "budget_db bs = base_db\<lparr>budgets := bs, nextId := 100 + length bs\<rparr>"

definition move_start :: budget_updates where
  "move_start = \<lparr> ub_categoryId = None, ub_name = None, ub_amount = None,
      ub_startDate = Some march_2024, ub_endDate = None, ub_alertThreshold = None,
      ub_isActive = None \<rparr>"

text \<open>The batch of the bulk import, a third row, and the documents the rows become.\<close>

definition pay_row :: import_row where
  "pay_row = \<lparr> row_amount = Some 100, row_description = Text ''Pay'',
               row_date = ValidDate jan_1_2024, row_category = Absent, row_tags = Absent \<rparr>"










section \<open>The properties as predicates on states\<close>

text \<open>
  The balance that the transactions linked to an account account for: its initial balance
  plus the amounts of its income transactions minus those of its expense transactions.
\<close>

definition ledger_balance :: "db \<Rightarrow> account \<Rightarrow> rat" where
  "ledger_balance s a =
     initialBalance a
     + sum_list (map txn_amount
         (filter (\<lambda>t. txn_accountId t = acc_id a \<and> txn_type t = Income) (transactions s)))
     - sum_list (map txn_amount
         (filter (\<lambda>t. txn_accountId t = acc_id a \<and> txn_type t = Expense) (transactions s)))"

definition balances_consistent :: "db \<Rightarrow> bool" where
  "balances_consistent s = list_all (\<lambda>a. balance a = ledger_balance s a) (accounts s)"

text \<open>The category that a transaction links to exists and has the transaction's type.\<close>

definition category_type_agrees :: "db \<Rightarrow> transaction \<Rightarrow> bool" where
  "category_type_agrees s t =
     (case find (\<lambda>c. cat_id c = txn_categoryId t) (categories s) of
        None \<Rightarrow> False
      | Some c \<Rightarrow> cat_type c = txn_type t)"

text \<open>
  Two active budgets of one owner and one category whose closed windows share a date, and
  the states in which no two different budgets do.
\<close>

definition overlapping :: "budget \<Rightarrow> budget \<Rightarrow> bool" where
  "overlapping a b =
     (bud_userId a = bud_userId b \<and> bud_categoryId a = bud_categoryId b \<and>
      bud_isActive a \<and> bud_isActive b \<and>
      bud_startDate a \<le> bud_endDate b \<and> bud_startDate b \<le> bud_endDate a)"

definition no_overlapping_budgets :: "db \<Rightarrow> bool" where
  "no_overlapping_budgets s =
     list_all (\<lambda>a. list_all (\<lambda>b. \<not> (bud_id a \<noteq> bud_id b \<and> overlapping a b)) (budgets s))
       (budgets s)"

text \<open>
  The id and the initial balance of every account, in the order of the collection.
\<close>

definition initial_balances :: "db \<Rightarrow> (oid \<times> rat) list" where
  "initial_balances s = map (\<lambda>a. (acc_id a, initialBalance a)) (accounts s)"





text \<open>
  Amounts in whole cents are the fixed points of the setter. The signed effect of a
  stored transaction, and the sum of the effects of the transactions linked to an
  account id.
\<close>

definition in_cents :: "rat \<Rightarrow> bool" where
  "in_cents x = (round_set x = x)"

definition signed :: "transaction \<Rightarrow> rat" where
  "signed t = (if txn_type t = Income then txn_amount t else - txn_amount t)"

definition net :: "oid \<Rightarrow> transaction list \<Rightarrow> rat" where
  "net k ts = sum_list (map (\<lambda>t. if txn_accountId t = k then signed t else 0) ts)"

text \<open>
  What the database and the handlers keep true of the two collections: ids are unique,
  the ids of the transactions are older than the next id, every transaction links to an
  account that exists, and stored amounts and balances are in whole cents.
\<close>

definition ledger_ok :: "db \<Rightarrow> bool" where
  "ledger_ok s =
     (distinct (map acc_id (accounts s)) \<and> distinct (map txn_id (transactions s)) \<and>
      list_all (\<lambda>t. txn_id t < nextId s) (transactions s) \<and>
      list_all (\<lambda>t. txn_accountId t \<in> set (map acc_id (accounts s))) (transactions s) \<and>
      list_all (\<lambda>t. in_cents (txn_amount t)) (transactions s) \<and>
      list_all (\<lambda>a. in_cents (balance a)) (accounts s))"

text \<open>
  Between the write of a transaction and the writes of the balances the equality holds up
  to an adjustment per account id that is still to be made.
\<close>

definition pending_ok :: "db \<Rightarrow> (oid \<Rightarrow> rat) \<Rightarrow> bool" where
  "pending_ok s pend =
     list_all (\<lambda>a. balance a + pend (acc_id a) =
                     initialBalance a + net (acc_id a) (transactions s)) (accounts s)"

text \<open>
  The requests of a ledger session: transaction creates with an amount in whole cents,
  transaction updates and transaction deletes.
\<close>

fun ledger_request :: "request \<Rightarrow> bool" where
  "ledger_request (CreateTransaction userId req) = in_cents (rq_amount req)"
| "ledger_request (UpdateTransaction userId transactionId updates) = True"
| "ledger_request (DeleteTransaction userId transactionId) = True"
| "ledger_request r = False"

section \<open>Properties of the financial health score\<close>

lemma Math_round_of_int: "Math_round (of_int n) = n"
  by (simp add: Math_round_def floor_eq_iff)

text \<open>
  Claim C4. For a user whose income of the previous month is 2000 and whose expenses are
  1600, whose active accounts hold 4800 in total, none of them a credit account, and who
  has no active budget around the current date, the sub-scores are savingsRate 100,
  budgetAdherence 100, emergencyFund 100, expenseControl 20 and debtManagement 100, and
  the weighted and rounded overall score is 88.
\<close>

theorem financial_health_example:
  assumes "lastMonthTotal userId lastMonth thisMonth Income (transactions s) = 2000"
    and "lastMonthTotal userId lastMonth thisMonth Expense (transactions s) = 1600"
    and "sum_list (map balance (activeAccounts userId s)) = 4800"
    and "filter (\<lambda>a. acc_type a = Credit) (activeAccounts userId s) = []"
    and "currentBudgets userId currentDate s = []"
  shows "getFinancialHealth userId currentDate lastMonth thisMonth s =
           \<lparr> overallScore = 88,
             scores = \<lparr> sc_savingsRate = 100, sc_budgetAdherence = 100,
                        sc_emergencyFund = 100, sc_expenseControl = 20,
                        sc_debtManagement = 100 \<rparr> \<rparr>"
proof -
  have r100: "Math_round 100 = 100"
    using Math_round_of_int [of 100] by simp
  have r88: "Math_round 88 = 88"
    using Math_round_of_int [of 88] by simp
  show ?thesis
    unfolding getFinancialHealth_def Let_def
    by (simp add: assms r100 r88)
qed

theorem financial_health_example_witness:
  "getFinancialHealth 1 mid_april_2024 march_2024 april_2024 (health_db 4800) =
     \<lparr> overallScore = 88,
       scores = \<lparr> sc_savingsRate = 100, sc_budgetAdherence = 100,
                  sc_emergencyFund = 100, sc_expenseControl = 20,
                  sc_debtManagement = 100 \<rparr> \<rparr>"
proof -
  have inc: "lastMonthTotal 1 march_2024 april_2024 Income (transactions (health_db 4800)) = 2000"
    by (simp add: lastMonthTotal_def health_db_def march_2024_def april_2024_def)
  have exp: "lastMonthTotal 1 march_2024 april_2024 Expense (transactions (health_db 4800)) = 1600"
    by (simp add: lastMonthTotal_def health_db_def march_2024_def april_2024_def)
  have bal: "sum_list (map balance (activeAccounts 1 (health_db 4800))) = 4800"
    by (simp add: activeAccounts_def health_db_def)
  have cred: "filter (\<lambda>a. acc_type a = Credit) (activeAccounts 1 (health_db 4800)) = []"
    by (simp add: activeAccounts_def health_db_def)
  have buds: "currentBudgets 1 mid_april_2024 (health_db 4800) = []"
    by (simp add: currentBudgets_def health_db_def)
  show ?thesis
    using financial_health_example [OF inc exp bal cred buds] .
qed

text \<open>
  Claim C5. The emergencyFund sub-score is \<open>Math.min(100, emergencyFundRatio * 100)\<close>,
  with no lower bound. For the user of the example with an overdrawn account, opened at
  -700 and now at -300, and expenses of 1600 in the previous month the ratio is
  -300 / 4800 and the sub-score is -25 / 4, below 0.
\<close>

theorem emergency_fund_negative:
  "sc_emergencyFund (scores (getFinancialHealth 1 mid_april_2024 march_2024 april_2024
      (health_db (- 300)))) = - 25 / 4"
  by (simp add: getFinancialHealth_def Let_def lastMonthTotal_def activeAccounts_def
      currentBudgets_def health_db_def march_2024_def april_2024_def)

text \<open>Both states of the example are states the transaction handlers can leave behind.\<close>

lemma health_db_consistent:
  "balances_consistent (health_db 4800) \<and> balances_consistent (health_db (- 300))"
  by code_simp

text \<open>
  The other two parts of the statement hold of the code: the sub-score never exceeds 100,
  and it is 100 when the expenses of the previous month are 0.
\<close>

lemma emergency_fund_at_most_100:
  "sc_emergencyFund (scores (getFinancialHealth userId currentDate lastMonth thisMonth s)) \<le> 100"
  by (simp add: getFinancialHealth_def Let_def)

lemma emergency_fund_without_expenses:
  "lastMonthTotal userId lastMonth thisMonth Expense (transactions s) = 0 \<Longrightarrow>
   sc_emergencyFund (scores (getFinancialHealth userId currentDate lastMonth thisMonth s)) = 100"
  by (simp add: getFinancialHealth_def Let_def)

section \<open>Properties of the transaction handlers\<close>

text \<open>
  Claim C1. The stored balance is meant to equal the initial balance plus the income
  amounts minus the expense amounts of the linked transactions after every operation.
  \<open>createTransaction\<close> stores the amount through the rounding setter but changes the
  balance by the unrounded amount: an expense of 0.005 on the fresh account Wallet is
  stored as 0.01 while the balance stays 0, since \<open>Math.round\<close> takes -0.5 to 0.
  The state before the request is consistent, the state after it is not.
\<close>

theorem create_half_cent_expense_breaks_balance:
  "createAccount 1 wallet_request base_db = (Inr (wallet 0), wallet_db) \<and>
   balances_consistent wallet_db \<and>
   createTransaction 1 half_cent_expense wallet_db =
     (Inr gum, wallet_db\<lparr>transactions := [gum], nextId := 102\<rparr>) \<and>
   \<not> balances_consistent (wallet_db\<lparr>transactions := [gum], nextId := 102\<rparr>)"
  by code_simp

text \<open>
  Claim C2. A create request with the amount -5, and one with the amount 0, is rejected
  by the validation of the route, whatever its other fields and whatever the state: the
  state is returned as it was, so no transaction is stored and no balance changes.
\<close>

theorem createTransaction_rejects_minus_5_and_0:
  "createTransaction userId (req\<lparr>rq_amount := - 5\<rparr>) s = (Inl ValidationFailed, s) \<and>
   createTransaction userId (req\<lparr>rq_amount := 0\<rparr>) s = (Inl ValidationFailed, s)"
  by (simp add: createTransaction_def createTransactionValidation_def)

text \<open>
  Claim C7. After a successful create the linked category has the transaction's type.
  \<open>updateTransaction\<close> looks at the category only when the payload names one: the
  update that carries only \<open>type = income\<close> succeeds on an expense in the expense
  category Food, and afterwards the transaction is an income whose category is an expense
  category.
\<close>

theorem update_type_only_breaks_category_type:
  "createTransaction 1 coffee_request wallet_db =
     (Inr (coffee Expense), coffee_db Expense (- 7 / 2)) \<and>
   category_type_agrees (coffee_db Expense (- 7 / 2)) (coffee Expense) \<and>
   updateTransaction 1 101 type_only_update (coffee_db Expense (- 7 / 2)) =
     (Inr (coffee Income), coffee_db Income (7 / 2)) \<and>
   \<not> category_type_agrees (coffee_db Income (7 / 2)) (coffee Income)"
  by code_simp

text \<open>
  The create path does what the update path misses: a transaction that has been created
  links to a category of its own type.
\<close>

lemma createTransaction_category_type:
  assumes "createTransaction userId req s = (Inr t, s')"
  shows "\<exists>c \<in> set (categories s'). cat_id c = txn_categoryId t \<and> cat_type c = txn_type t"
  using assms
  by (auto simp: createTransaction_def Let_def save_account_def find_Some_iff
      split: if_splits option.splits)

section \<open>Properties of the budget handlers\<close>

text \<open>
  Claim C6. \<open>createBudget\<close> refuses a window that overlaps an active budget of the same
  owner and category and stores nothing, but \<open>updateBudget\<close> makes no such check: after
  the budget for March and a budget from mid April to May have been created, moving the
  start of the second to the first of March succeeds, and the two active budgets for the
  category Food overlap.
\<close>

theorem update_budget_creates_overlap:
  "createBudget 1 march_budget (budget_db []) =
     (Inr stored_march_budget, budget_db [stored_march_budget]) \<and>
   createBudget 1 (spring_budget march_2024) (budget_db [stored_march_budget]) =
     (Inl (BadRequest ''A budget for this category already exists in the specified date range''),
      budget_db [stored_march_budget]) \<and>
   createBudget 1 (spring_budget mid_april_2024) (budget_db [stored_march_budget]) =
     (Inr (stored_spring_budget mid_april_2024),
      budget_db [stored_march_budget, stored_spring_budget mid_april_2024]) \<and>
   no_overlapping_budgets (budget_db [stored_march_budget, stored_spring_budget mid_april_2024]) \<and>
   updateBudget 1 101 move_start
       (budget_db [stored_march_budget, stored_spring_budget mid_april_2024]) =
     (Inr (stored_spring_budget march_2024),
      budget_db [stored_march_budget, stored_spring_budget march_2024]) \<and>
   \<not> no_overlapping_budgets (budget_db [stored_march_budget, stored_spring_budget march_2024])"
  by code_simp

text \<open>
  The create path keeps the invariant: a request whose window overlaps an active budget of
  the same owner and category is refused and the state stays as it was, and whatever the
  request, a state without overlapping budgets is followed by one.
\<close>

lemma createBudget_rejects_overlap:
  assumes "b \<in> set (budgets s)" and "bud_userId b = userId"
    and "bud_categoryId b = cb_categoryId req" and "bud_isActive b"
    and "bud_startDate b \<le> cb_endDate req" and "cb_startDate req \<le> bud_endDate b"
  shows "\<exists>e. createBudget userId req s = (Inl e, s)"
proof -
  from assms have "find (\<lambda>b. bud_userId b = userId \<and> bud_categoryId b = cb_categoryId req
                        \<and> bud_isActive b \<and> bud_startDate b \<le> cb_endDate req
                        \<and> bud_endDate b \<ge> cb_startDate req) (budgets s) \<noteq> None"
    by (auto simp: find_None_iff)
  then show ?thesis
    by (simp add: createBudget_def)
qed

lemma overlapping_commute: "overlapping a b = overlapping b a"
  by (auto simp: overlapping_def)

lemma createBudget_keeps_no_overlap:
  assumes inv: "no_overlapping_budgets s"
  shows "no_overlapping_budgets (snd (createBudget userId req s))"
proof (cases "createBudget userId req s")
  case (Pair res s')
  show ?thesis
  proof (cases res)
    case (Inl e)
    with Pair have "s' = s"
      by (auto simp: createBudget_def Let_def split: if_splits)
    with Pair inv show ?thesis by simp
  next
    case (Inr b)
    with Pair have none: "find (\<lambda>x. bud_userId x = userId \<and> bud_categoryId x = cb_categoryId req
                        \<and> bud_isActive x \<and> bud_startDate x \<le> cb_endDate req
                        \<and> bud_endDate x \<ge> cb_startDate req) (budgets s) = None"
      and b: "bud_userId b = userId" "bud_categoryId b = cb_categoryId req"
             "bud_startDate b = cb_startDate req" "bud_endDate b = cb_endDate req"
      and s': "budgets s' = budgets s @ [b]"
      by (auto simp: createBudget_def Let_def split: if_splits)
    have new: "\<not> overlapping x b" if "x \<in> set (budgets s)" for x
      using none that b by (auto simp: find_None_iff overlapping_def)
    have "\<not> (bud_id x \<noteq> bud_id y \<and> overlapping x y)"
      if "x \<in> set (budgets s')" "y \<in> set (budgets s')" for x y
      using that inv new overlapping_commute [of b]
      by (auto simp: s' no_overlapping_budgets_def list_all_iff)
    then have "no_overlapping_budgets s'"
      by (simp add: no_overlapping_budgets_def list_all_iff)
    with Pair show ?thesis by simp
  qed
qed

section \<open>Properties of the upload handler\<close>

text \<open>
  Claim C9. The temporary file is to be removed before every response. A file named
  \<open>statement.xlsx\<close> passes the filter of the middleware and is written to disk; the
  handler then answers 400 from inside its \<open>try\<close> block, before the unlink and without
  reaching the \<open>catch\<close>: the file is still on disk after the response.
\<close>

theorem upload_xlsx_leaves_file:
  "post_upload_transactions (Some ''statement.xlsx'') ''uploads/file-1.xlsx'' parseCsv [] =
     (Inl (BadRequest ''Excel files not yet supported''), [''uploads/file-1.xlsx''])"
  by (simp add: post_upload_transactions_def upload_def fileFilter_def extname_def
      basename_def toLowerCase_def uploadTransactions_def Let_def)

text \<open>
  For a file with the extension \<open>.csv\<close> the cleanup works whenever the promise of
  \<open>parseCsvFile\<close> settles: whether the parse succeeds, finds nothing or fails, the disk
  is afterwards as it was before the request. When the file cannot be read the promise
  does not settle, and the file stays.
\<close>

lemma upload_csv_removes_file:
  assumes "toLowerCase (extname name) = ''.csv''" and "stored \<notin> set fs"
    and "parseCsv stored \<noteq> ReadFailed"
  shows "snd (post_upload_transactions (Some name) stored parseCsv fs) = fs"
  using assms
  by (auto simp: post_upload_transactions_def upload_def fileFilter_def uploadTransactions_def
      unlinkAsync_def split: csv_outcome.splits)

lemma upload_csv_unreadable_leaves_file:
  assumes "toLowerCase (extname name) = ''.csv''" and "parseCsv stored = ReadFailed"
  shows "post_upload_transactions (Some name) stored parseCsv fs = (Inl NoResponse, fs @ [stored])"
  using assms
  by (simp add: post_upload_transactions_def upload_def fileFilter_def uploadTransactions_def)

section \<open>Amounts in whole cents\<close>

text \<open>
  The values with at most two decimals are the fixed points of the setter, and they are
  closed under the arithmetic of the handlers.
\<close>

lemma in_cents_iff: "in_cents x = (\<exists>n::int. x = of_int n / 100)"
proof
  assume "in_cents x"
  then have "x = of_int (Math_round (x * 100)) / 100"
    by (simp add: in_cents_def round_set_def)
  then show "\<exists>n::int. x = of_int n / 100" by blast
next
  assume "\<exists>n::int. x = of_int n / 100"
  then obtain n :: int where "x = of_int n / 100" by blast
  then show "in_cents x"
    by (simp add: in_cents_def round_set_def Math_round_of_int)
qed

lemma in_cents_round_set [simp]: "in_cents (round_set x)"
  by (auto simp: in_cents_iff round_set_def)

lemma in_cents_add: "in_cents x \<Longrightarrow> in_cents y \<Longrightarrow> in_cents (x + y)"
proof -
  assume "in_cents x" "in_cents y"
  then obtain m n :: int where "x = of_int m / 100" "y = of_int n / 100"
    by (auto simp: in_cents_iff)
  then have "x + y = of_int (m + n) / 100" by (simp add: add_divide_distrib)
  then show ?thesis unfolding in_cents_iff by (rule exI)
qed

lemma in_cents_diff: "in_cents x \<Longrightarrow> in_cents y \<Longrightarrow> in_cents (x - y)"
proof -
  assume "in_cents x" "in_cents y"
  then obtain m n :: int where "x = of_int m / 100" "y = of_int n / 100"
    by (auto simp: in_cents_iff)
  then have "x - y = of_int (m - n) / 100" by (simp add: diff_divide_distrib)
  then show ?thesis unfolding in_cents_iff by (rule exI)
qed

lemma in_cents_abs: "in_cents x \<Longrightarrow> in_cents \<bar>x\<bar>"
proof -
  assume "in_cents x"
  then obtain m :: int where "x = of_int m / 100"
    by (auto simp: in_cents_iff)
  then have "\<bar>x\<bar> = of_int \<bar>m\<bar> / 100" by simp
  then show ?thesis unfolding in_cents_iff by (rule exI)
qed

lemma round_set_add: "in_cents x \<Longrightarrow> in_cents y \<Longrightarrow> round_set (x + y) = x + y"
  using in_cents_add by (simp add: in_cents_def)

lemma round_set_diff: "in_cents x \<Longrightarrow> in_cents y \<Longrightarrow> round_set (x - y) = x - y"
  using in_cents_diff by (simp add: in_cents_def)





section \<open>Properties of the bulk import\<close>














text \<open>
  A row as the upload preview returns it carries its tags as an array: \<open>split\<close> is no
  method of an array, the \<open>catch\<close> of the loop reports the row, and nothing is imported.
\<close>

lemma bulk_import_row_with_tag_array:
  "bulkImportTransactions 1 [pay_row\<lparr>row_tags := NotText\<rparr>] wallet_db =
   (Inr \<lparr> imported = 0, errors = 1, total = 1,
          details = [(1, ''txn.tags.split is not a function'')] \<rparr>,
    wallet_db)"
  by code_simp




section \<open>The initial balance of an account\<close>


lemma initial_balances_ids:
  "initial_balances s' = initial_balances s \<Longrightarrow> map acc_id (accounts s') = map acc_id (accounts s)"
proof -
  assume "initial_balances s' = initial_balances s"
  then have "map fst (initial_balances s') = map fst (initial_balances s)" by simp
  then show ?thesis by (simp add: initial_balances_def comp_def)
qed


lemma effect_fields [simp]:
  "acc_id (apply_effect ty amount a) = acc_id a"
  "initialBalance (apply_effect ty amount a) = initialBalance a"
  "acc_id (reverse_effect ty amount a) = acc_id a"
  "initialBalance (reverse_effect ty amount a) = initialBalance a"
  by (simp_all add: apply_effect_def reverse_effect_def)

lemma initial_balances_other_fields [simp]:
  "initial_balances (s\<lparr>transactions := ts\<rparr>) = initial_balances s"
  "initial_balances (s\<lparr>nextId := n\<rparr>) = initial_balances s"
  by (simp_all add: initial_balances_def)

lemma save_account_ids: "map acc_id (accounts (save_account a s)) = map acc_id (accounts s)"
  by (simp add: save_account_def account_pre_save_def comp_def cong: if_cong)

lemma save_account_keeps:
  "x \<in> set (accounts s) \<Longrightarrow> acc_id x \<noteq> acc_id a \<Longrightarrow> x \<in> set (accounts (save_account a s))"
  by (auto simp: save_account_def)

lemma findAccountById_Some:
  "findAccountById i s = Some a \<Longrightarrow> a \<in> set (accounts s) \<and> acc_id a = i"
  by (auto simp: findAccountById_def find_Some_iff)



lemma accounts_save_transaction [simp]: "accounts (save_transaction t s) = accounts s"
  by (simp add: save_transaction_def)

lemma initial_balances_save_transaction [simp]:
  "initial_balances (save_transaction t s) = initial_balances s"
  by (simp add: initial_balances_def)









lemma nextId_save_account [simp]: "nextId (save_account a s) = nextId s"
  by (simp add: save_account_def)

lemma nextId_apply_balance_updates [simp]: "nextId (apply_balance_updates m s) = nextId s"
  by (induction m s rule: apply_balance_updates.induct)
     (simp_all add: findByIdAndUpdate_inc_balance_def)







lemma accounts_save_account:
  "accounts (save_account a s) = map (\<lambda>x. if acc_id x = acc_id a then a else x) (accounts s)"
  by (simp add: save_account_def account_pre_save_def cong: if_cong)





section \<open>Overwriting the balance by an account update\<close>




section \<open>The balance invariant for amounts in whole cents\<close>

text \<open>
  Apart from a create request whose amount is not a whole number of cents, the handlers
  keep the stored balances equal to what the linked transactions account for: from a
  consistent state, every list of transaction creates with amounts in whole cents,
  transaction updates and transaction deletes leads to a consistent state.
\<close>

lemma ledger_balance_net:
  "ledger_balance s a = initialBalance a + net (acc_id a) (transactions s)"
proof -
  have "sum_list (map txn_amount (filter (\<lambda>t. txn_accountId t = k \<and> txn_type t = Income) ts))
        - sum_list (map txn_amount (filter (\<lambda>t. txn_accountId t = k \<and> txn_type t = Expense) ts))
        = net k ts" for k ts
  proof (induction ts)
    case Nil
    show ?case by (simp add: net_def)
  next
    case (Cons t ts)
    then show ?case
      by (cases "txn_type t") (auto simp: net_def signed_def)
  qed
  then show ?thesis
    by (simp add: ledger_balance_def)
qed

lemma net_append: "net k (ts @ [t]) = net k ts + (if txn_accountId t = k then signed t else 0)"
  by (simp add: net_def)

lemma net_remove:
  assumes "distinct (map txn_id ts)" and "t \<in> set ts"
  shows "net k (filter (\<lambda>x. txn_id x \<noteq> txn_id t) ts) =
         net k ts - (if txn_accountId t = k then signed t else 0)"
  using assms
proof (induction ts)
  case Nil
  then show ?case by simp
next
  case (Cons x xs)
  show ?case
  proof (cases "x = t")
    case True
    with Cons.prems have "txn_id t \<notin> txn_id ` set xs" by simp
    then have "\<forall>y\<in>set xs. txn_id y \<noteq> txn_id t" by (metis imageI)
    then have "filter (\<lambda>x. txn_id x \<noteq> txn_id t) xs = xs" by simp
    with True show ?thesis by (simp add: net_def)
  next
    case False
    with Cons.prems have "t \<in> set xs" "txn_id x \<noteq> txn_id t" "distinct (map txn_id xs)"
      by auto
    with Cons.IH show ?thesis by (simp add: net_def)
  qed
qed

lemma net_replace:
  assumes "distinct (map txn_id ts)" and "t \<in> set ts" and "txn_id t' = txn_id t"
  shows "net k (map (\<lambda>x. if txn_id x = txn_id t' then t' else x) ts) =
         net k ts - (if txn_accountId t = k then signed t else 0)
                  + (if txn_accountId t' = k then signed t' else 0)"
  using assms
proof (induction ts)
  case Nil
  then show ?case by simp
next
  case (Cons x xs)
  show ?case
  proof (cases "x = t")
    case True
    with Cons.prems have "txn_id t' \<notin> txn_id ` set xs" by simp
    then have "\<forall>y\<in>set xs. txn_id y \<noteq> txn_id t'" by (metis imageI)
    then have "map (\<lambda>x. if txn_id x = txn_id t' then t' else x) xs = xs"
      by (simp add: map_idI)
    with True Cons.prems(3) show ?thesis by (simp add: net_def)
  next
    case False
    with Cons.prems have "t \<in> set xs" "txn_id x \<noteq> txn_id t'" "distinct (map txn_id xs)"
      by auto
    with Cons.IH Cons.prems(3) show ?thesis by (simp add: net_def)
  qed
qed

lemma balances_consistent_pending: "balances_consistent s = pending_ok s (\<lambda>k. 0)"
  by (simp add: balances_consistent_def pending_ok_def ledger_balance_net)

lemma save_adjust:
  assumes d: "distinct (map acc_id (accounts s))" and a: "a \<in> set (accounts s)"
    and id: "acc_id a' = acc_id a" and ini: "initialBalance a' = initialBalance a"
    and bal: "balance a' = balance a + delta"
    and p: "pending_ok s pend"
  shows "pending_ok (save_account a' s) (pend(acc_id a := pend (acc_id a) - delta))"
proof -
  have uniq: "x = a" if "x \<in> set (accounts s)" "acc_id x = acc_id a" for x
    using d a that by (metis distinct_map inj_onD)
  have "balance y + (pend(acc_id a := pend (acc_id a) - delta)) (acc_id y) =
        initialBalance y + net (acc_id y) (transactions s)"
    if "y \<in> set (accounts (save_account a' s))" for y
  proof -
    from that obtain x where x: "x \<in> set (accounts s)"
      and y: "y = (if acc_id x = acc_id a' then a' else x)"
      by (auto simp: accounts_save_account)
    from p x have px: "balance x + pend (acc_id x) = initialBalance x + net (acc_id x) (transactions s)"
      by (simp add: pending_ok_def list_all_iff)
    show ?thesis
    proof (cases "acc_id x = acc_id a")
      case True
      with uniq x have "x = a" by simp
      with True y id ini bal px show ?thesis by simp
    next
      case False
      with y id px show ?thesis by simp
    qed
  qed
  then show ?thesis
    by (simp add: pending_ok_def list_all_iff save_account_def)
qed

lemma effect_balance:
  assumes "in_cents (balance a)" and "in_cents amount"
  shows "balance (apply_effect ty amount a) =
           balance a + (if ty = Income then amount else - amount)"
    and "balance (reverse_effect ty amount a) =
           balance a - (if ty = Income then amount else - amount)"
  using assms by (simp_all add: apply_effect_def reverse_effect_def round_set_add round_set_diff)

lemma effect_in_cents [simp]:
  "in_cents (balance (apply_effect ty amount a))"
  "in_cents (balance (reverse_effect ty amount a))"
  by (simp_all add: apply_effect_def reverse_effect_def)

lemma findAccountById_exists:
  "i \<in> set (map acc_id (accounts s)) \<Longrightarrow> \<exists>a. findAccountById i s = Some a"
  by (cases "findAccountById i s") (auto simp: findAccountById_def find_None_iff)

lemma list_all_save_account:
  "list_all P (accounts s) \<Longrightarrow> P a' \<Longrightarrow> list_all P (accounts (save_account a' s))"
  by (auto simp: accounts_save_account list_all_iff)

lemma transactions_save_account [simp]: "transactions (save_account a s) = transactions s"
  by (simp add: save_account_def)

lemma ledger_ok_accounts_step:
  assumes ok: "ledger_ok s"
    and ids: "map acc_id (accounts s') = map acc_id (accounts s)"
    and bal: "list_all (\<lambda>a. in_cents (balance a)) (accounts s')"
    and d: "distinct (map txn_id (transactions s'))"
    and fresh: "list_all (\<lambda>t. txn_id t < nextId s') (transactions s')"
    and ref: "list_all (\<lambda>t. txn_accountId t \<in> set (map acc_id (accounts s))) (transactions s')"
    and amt: "list_all (\<lambda>t. in_cents (txn_amount t)) (transactions s')"
  shows "ledger_ok s'"
  using assms by (simp add: ledger_ok_def)

lemma createTransaction_ledger:
  assumes ok: "ledger_ok s" and c: "balances_consistent s" and amt: "in_cents (rq_amount req)"
  shows "balances_consistent (snd (createTransaction userId req s)) \<and>
         ledger_ok (snd (createTransaction userId req s))"
proof (cases "createTransaction userId req s")
  case (Pair res s')
  show ?thesis
  proof (cases res)
    case (Inl e)
    with Pair have "s' = s"
      by (auto simp: createTransaction_def Let_def split: if_splits option.splits)
    with Pair ok c show ?thesis by simp
  next
    case (Inr t)
    with Pair obtain account where
      f: "find (\<lambda>a. acc_id a = rq_accountId req \<and> acc_userId a = userId \<and> acc_isActive a)
            (accounts s) = Some account"
      by (auto simp: createTransaction_def split: if_splits option.splits)
    define s1 where "s1 = s\<lparr>transactions := transactions s @ [t], nextId := Suc (nextId s)\<rparr>"
    define a' where "a' = apply_effect (rq_type req) \<bar>rq_amount req\<bar> account"
    from Pair Inr f have t: "t = \<lparr> txn_id = nextId s, txn_userId = userId,
          txn_accountId = rq_accountId req, txn_categoryId = rq_categoryId req,
          txn_amount = round_set \<bar>rq_amount req\<bar>, txn_description = trim (rq_description req),
          txn_date = rq_date req, txn_type = rq_type req \<rparr>"
      by (auto simp: createTransaction_def Let_def split: if_splits option.splits)
    from Pair Inr f have s': "s' = save_account a' s1"
      by (auto simp: createTransaction_def Let_def s1_def a'_def split: if_splits option.splits)
    from f have mem: "account \<in> set (accounts s)" and id: "acc_id account = rq_accountId req"
      by (auto simp: find_Some_iff)
    have cents: "round_set \<bar>rq_amount req\<bar> = \<bar>rq_amount req\<bar>"
      using in_cents_abs [OF amt] by (simp add: in_cents_def)
    have st: "signed t = (if rq_type req = Income then \<bar>rq_amount req\<bar> else - \<bar>rq_amount req\<bar>)"
      by (simp add: t signed_def cents)
    from ok mem have bc: "in_cents (balance account)"
      by (simp add: ledger_ok_def list_all_iff)
    have bal: "balance a' = balance account + signed t"
      using effect_balance(1) [OF bc in_cents_abs [OF amt]] by (simp add: a'_def st)
    have tacc: "txn_accountId t = acc_id account" by (simp add: t id)
    from mem have "acc_id account \<in> acc_id ` set (accounts s)" by (rule imageI)
    with id have known: "rq_accountId req \<in> set (map acc_id (accounts s))" by simp
    have p1: "pending_ok s1 (\<lambda>k. if k = acc_id account then signed t else 0)"
      using c tacc
      by (auto simp: balances_consistent_pending pending_ok_def list_all_iff s1_def net_append)
    have d1: "distinct (map acc_id (accounts s1))"
      using ok by (simp add: ledger_ok_def s1_def)
    have m1: "account \<in> set (accounts s1)" using mem by (simp add: s1_def)
    have "pending_ok s' ((\<lambda>k. if k = acc_id account then signed t else 0)
            (acc_id account := (if acc_id account = acc_id account then signed t else 0) - signed t))"
      unfolding s'
      by (rule save_adjust [OF d1 m1 _ _ bal p1]) (simp_all add: a'_def)
    moreover have "(\<lambda>k. if k = acc_id account then signed t else 0)
            (acc_id account := (if acc_id account = acc_id account then signed t else 0) - signed t)
          = (\<lambda>k. 0)"
      by (auto simp: fun_eq_iff)
    ultimately have cons: "balances_consistent s'"
      by (simp add: balances_consistent_pending)
    have ids: "map acc_id (accounts s') = map acc_id (accounts s)"
      by (simp add: s' save_account_ids s1_def)
    have "ledger_ok s'"
    proof (rule ledger_ok_accounts_step [OF ok ids])
      show "list_all (\<lambda>a. in_cents (balance a)) (accounts s')"
        unfolding s' using ok
        by (intro list_all_save_account) (simp_all add: ledger_ok_def s1_def a'_def)
      show "distinct (map txn_id (transactions s'))"
        using ok by (auto simp: s' s1_def ledger_ok_def t list_all_iff)
      show "list_all (\<lambda>t. txn_id t < nextId s') (transactions s')"
        using ok by (auto simp: s' s1_def ledger_ok_def t list_all_iff less_Suc_eq)
      show "list_all (\<lambda>t. txn_accountId t \<in> set (map acc_id (accounts s))) (transactions s')"
        using ok known by (auto simp: s' s1_def ledger_ok_def t list_all_iff)
      show "list_all (\<lambda>t. in_cents (txn_amount t)) (transactions s')"
        using ok by (auto simp: s' s1_def ledger_ok_def t list_all_iff)
    qed
    with cons Pair show ?thesis by simp
  qed
qed

lemma deleteTransaction_ledger:
  assumes ok: "ledger_ok s" and c: "balances_consistent s"
  shows "balances_consistent (snd (deleteTransaction userId transactionId s)) \<and>
         ledger_ok (snd (deleteTransaction userId transactionId s))"
proof (cases "find (\<lambda>t. txn_id t = transactionId \<and> txn_userId t = userId) (transactions s)")
  case None
  with ok c show ?thesis by (simp add: deleteTransaction_def)
next
  case (Some t)
  then have tmem: "t \<in> set (transactions s)" by (auto simp: find_Some_iff)
  with ok have "txn_accountId t \<in> set (map acc_id (accounts s))"
    and tc: "in_cents (txn_amount t)"
    by (simp_all add: ledger_ok_def list_all_iff)
  then obtain account where fa: "findAccountById (txn_accountId t) s = Some account"
    using findAccountById_exists by blast
  note acc = findAccountById_Some [OF fa]
  define a' where "a' = reverse_effect (txn_type t) (txn_amount t) account"
  define s1 where "s1 = save_account a' s"
  define s' where "s' = s1\<lparr>transactions := filter (\<lambda>x. txn_id x \<noteq> txn_id t) (transactions s1)\<rparr>"
  have res: "snd (deleteTransaction userId transactionId s) = s'"
    by (simp add: deleteTransaction_def Some fa Let_def s'_def s1_def a'_def)
  from ok have d: "distinct (map acc_id (accounts s))" and dt: "distinct (map txn_id (transactions s))"
    by (simp_all add: ledger_ok_def)
  from ok acc have bc: "in_cents (balance account)"
    by (simp add: ledger_ok_def list_all_iff)
  have bal: "balance a' = balance account + (- signed t)"
    using effect_balance(2) [OF bc tc] by (simp add: a'_def signed_def)
  from c have p0: "pending_ok s (\<lambda>k. 0)" by (simp add: balances_consistent_pending)
  have p1: "pending_ok s1 ((\<lambda>k. 0)(acc_id account := 0 - (- signed t)))"
    unfolding s1_def
    by (rule save_adjust [OF d _ _ _ bal p0]) (simp_all add: acc a'_def)
  have "pending_ok s' (\<lambda>k. 0)"
    using p1 acc net_remove [OF dt tmem]
    by (auto simp: pending_ok_def list_all_iff s'_def s1_def)
  then have cons: "balances_consistent s'" by (simp add: balances_consistent_pending)
  have ids: "map acc_id (accounts s') = map acc_id (accounts s)"
    by (simp add: s'_def s1_def save_account_ids)
  have "ledger_ok s'"
  proof (rule ledger_ok_accounts_step [OF ok ids])
    show "list_all (\<lambda>a. in_cents (balance a)) (accounts s')"
      using ok list_all_save_account [of "\<lambda>a. in_cents (balance a)" s a']
      by (simp add: s'_def s1_def ledger_ok_def a'_def)
    show "distinct (map txn_id (transactions s'))"
      using dt by (simp add: s'_def s1_def distinct_map_filter)
    show "list_all (\<lambda>t. txn_id t < nextId s') (transactions s')"
      using ok by (simp add: s'_def s1_def ledger_ok_def list_all_iff)
    show "list_all (\<lambda>t. txn_accountId t \<in> set (map acc_id (accounts s))) (transactions s')"
      using ok by (simp add: s'_def s1_def ledger_ok_def list_all_iff)
    show "list_all (\<lambda>t. in_cents (txn_amount t)) (transactions s')"
      using ok by (simp add: s'_def s1_def ledger_ok_def list_all_iff)
  qed
  with cons res show ?thesis by simp
qed

lemma update_account_balances_ledger:
  assumes d: "distinct (map acc_id (accounts s1))"
    and bc: "list_all (\<lambda>a. in_cents (balance a)) (accounts s1)"
    and oc: "in_cents oldAmount" and nc: "in_cents (txn_amount t')"
    and old: "oldAccountId \<in> set (map acc_id (accounts s1))"
    and new: "txn_accountId t' \<in> set (map acc_id (accounts s1))"
    and p: "pending_ok s1 (\<lambda>k. (if txn_accountId t' = k then signed t' else 0)
                              - (if oldAccountId = k
                                 then (if oldType = Income then oldAmount else - oldAmount)
                                 else 0))"
  shows "\<exists>s2. update_account_balances oldAccountId oldType oldAmount t' s1 = Some s2 \<and>
              pending_ok s2 (\<lambda>k. 0) \<and>
              map acc_id (accounts s2) = map acc_id (accounts s1) \<and>
              list_all (\<lambda>a. in_cents (balance a)) (accounts s2) \<and>
              transactions s2 = transactions s1 \<and> nextId s2 = nextId s1"
proof -
  let ?sOld = "if oldType = Income then oldAmount else - oldAmount"
  let ?pend = "\<lambda>k. (if txn_accountId t' = k then signed t' else 0)
                    - (if oldAccountId = k then ?sOld else 0)"
  from old obtain oldAccount where fo: "findAccountById oldAccountId s1 = Some oldAccount"
    using findAccountById_exists by blast
  note o = findAccountById_Some [OF fo]
  from bc o have obc: "in_cents (balance oldAccount)" by (simp add: list_all_iff)
  define reversed where "reversed = reverse_effect oldType oldAmount oldAccount"
  have rbal: "balance reversed = balance oldAccount + (- ?sOld)"
    using effect_balance(2) [OF obc oc] by (simp add: reversed_def)
  show ?thesis
  proof (cases "oldAccountId = txn_accountId t'")
    case True
    define a' where "a' = apply_effect (txn_type t') (txn_amount t') reversed"
    define s2 where "s2 = save_account a' s1"
    have run: "update_account_balances oldAccountId oldType oldAmount t' s1 = Some s2"
      using True fo by (simp add: update_account_balances_def Let_def s2_def a'_def reversed_def)
    have "in_cents (balance reversed)" by (simp add: reversed_def)
    from effect_balance(1) [OF this nc]
    have bal: "balance a' = balance oldAccount + (signed t' - ?sOld)"
      using rbal by (simp add: a'_def signed_def)
    have "pending_ok s2 (?pend(acc_id oldAccount := ?pend (acc_id oldAccount) - (signed t' - ?sOld)))"
      unfolding s2_def
      by (rule save_adjust [OF d _ _ _ bal p]) (simp_all add: o a'_def reversed_def)
    moreover have "?pend(acc_id oldAccount := ?pend (acc_id oldAccount) - (signed t' - ?sOld))
                   = (\<lambda>k. 0)"
      using True o by (auto simp: fun_eq_iff)
    ultimately have "pending_ok s2 (\<lambda>k. 0)" by simp
    moreover have "list_all (\<lambda>a. in_cents (balance a)) (accounts s2)"
      unfolding s2_def using bc by (intro list_all_save_account) (simp_all add: a'_def)
    ultimately show ?thesis
      using run by (simp add: s2_def save_account_ids)
  next
    case False
    from new obtain newAccount where fn: "findAccountById (txn_accountId t') s1 = Some newAccount"
      using findAccountById_exists by blast
    note n = findAccountById_Some [OF fn]
    from bc n have nbc: "in_cents (balance newAccount)" by (simp add: list_all_iff)
    define mid where "mid = save_account reversed s1"
    define a' where "a' = apply_effect (txn_type t') (txn_amount t') newAccount"
    define s2 where "s2 = save_account a' mid"
    have run: "update_account_balances oldAccountId oldType oldAmount t' s1 = Some s2"
      using False fo fn
      by (simp add: update_account_balances_def Let_def s2_def a'_def mid_def reversed_def)
    have pm: "pending_ok mid (?pend(acc_id oldAccount := ?pend (acc_id oldAccount) - (- ?sOld)))"
      unfolding mid_def
      by (rule save_adjust [OF d _ _ _ rbal p]) (simp_all add: o reversed_def)
    have dm: "distinct (map acc_id (accounts mid))"
      using d by (simp add: mid_def save_account_ids)
    have nm: "newAccount \<in> set (accounts mid)"
      unfolding mid_def using n o False by (intro save_account_keeps) (simp_all add: reversed_def)
    have bal: "balance a' = balance newAccount + signed t'"
      using effect_balance(1) [OF nbc nc] by (simp add: a'_def signed_def)
    let ?pm = "?pend(acc_id oldAccount := ?pend (acc_id oldAccount) - (- ?sOld))"
    have "pending_ok s2 (?pm(acc_id newAccount := ?pm (acc_id newAccount) - signed t'))"
      unfolding s2_def
      by (rule save_adjust [OF dm nm _ _ bal pm]) (simp_all add: a'_def)
    moreover have "?pm(acc_id newAccount := ?pm (acc_id newAccount) - signed t') = (\<lambda>k. 0)"
      using False o n by (auto simp: fun_eq_iff)
    ultimately have "pending_ok s2 (\<lambda>k. 0)" by simp
    moreover have "list_all (\<lambda>a. in_cents (balance a)) (accounts mid)"
      unfolding mid_def using bc by (intro list_all_save_account) (simp_all add: reversed_def)
    then have "list_all (\<lambda>a. in_cents (balance a)) (accounts s2)"
      unfolding s2_def by (intro list_all_save_account) (simp_all add: a'_def)
    ultimately show ?thesis
      using run by (simp add: s2_def mid_def save_account_ids)
  qed
qed

lemma replace_keeps_txn_ids:
  "map txn_id (map (\<lambda>x. if txn_id x = txn_id t' then t' else x) ts) = map txn_id ts"
  by (induction ts) simp_all

lemma updateTransaction_ledger:
  assumes ok: "ledger_ok s" and c: "balances_consistent s"
  shows "balances_consistent (snd (updateTransaction userId transactionId updates s)) \<and>
         ledger_ok (snd (updateTransaction userId transactionId updates s))"
proof (cases "find (\<lambda>t. txn_id t = transactionId \<and> txn_userId t = userId) (transactions s)")
  case None
  with ok c show ?thesis by (simp add: updateTransaction_def)
next
  case (Some existing)
  then have emem: "existing \<in> set (transactions s)" by (auto simp: find_Some_iff)
  define chkA where "chkA =
     (case up_accountId updates of None \<Rightarrow> False
      | Some a \<Rightarrow> a \<noteq> txn_accountId existing \<and>
          find (\<lambda>x. acc_id x = a \<and> acc_userId x = userId \<and> acc_isActive x) (accounts s) = None)"
  define chkC where "chkC =
     (case up_categoryId updates of None \<Rightarrow> False
      | Some c \<Rightarrow>
          find (\<lambda>k. cat_id k = c \<and> cat_userId k = userId
                    \<and> cat_type k = (case up_type updates of Some ty \<Rightarrow> ty
                                    | None \<Rightarrow> txn_type existing)
                    \<and> cat_isActive k) (categories s) = None)"
  show ?thesis
  proof (cases "\<not> updateTransactionValidation updates \<or> chkA \<or> chkC")
    case True
    then have "snd (updateTransaction userId transactionId updates s) = s"
      by (auto simp: updateTransaction_def Some Let_def chkA_def chkC_def)
    with ok c show ?thesis by simp
  next
    case False
    define updated where "updated = apply_transaction_updates updates existing"
    define s1 where "s1 = save_transaction updated s"
    have res: "snd (updateTransaction userId transactionId updates s) =
        (case update_account_balances (txn_accountId existing) (txn_type existing)
                (txn_amount existing) updated s1 of
           None \<Rightarrow> s1 | Some s2 \<Rightarrow> s2)"
      using False
      by (auto simp: updateTransaction_def Some Let_def chkA_def chkC_def updated_def s1_def
          split: option.splits)
    from ok have d: "distinct (map acc_id (accounts s))"
      and dt: "distinct (map txn_id (transactions s))"
      and bc: "list_all (\<lambda>a. in_cents (balance a)) (accounts s)"
      by (simp_all add: ledger_ok_def)
    from ok emem have oldref: "txn_accountId existing \<in> set (map acc_id (accounts s))"
      and oc: "in_cents (txn_amount existing)"
      by (simp_all add: ledger_ok_def list_all_iff)
    have uid: "txn_id updated = txn_id existing"
      by (simp add: updated_def apply_transaction_updates_def)
    have nc: "in_cents (txn_amount updated)"
      using oc by (cases "up_amount updates") (simp_all add: updated_def apply_transaction_updates_def)
    have newref: "txn_accountId updated \<in> set (map acc_id (accounts s))"
    proof (cases "up_accountId updates")
      case None
      with oldref show ?thesis by (simp add: updated_def apply_transaction_updates_def)
    next
      case (Some a)
      show ?thesis
      proof (cases "a = txn_accountId existing")
        case True
        with Some oldref show ?thesis by (simp add: updated_def apply_transaction_updates_def)
      next
        case differs: False
        with False Some obtain x where
          "find (\<lambda>x. acc_id x = a \<and> acc_userId x = userId \<and> acc_isActive x) (accounts s) = Some x"
          by (auto simp: chkA_def)
        then have "x \<in> set (accounts s)" "acc_id x = a" by (auto simp: find_Some_iff)
        then have "a \<in> acc_id ` set (accounts s)" by (metis imageI)
        with Some show ?thesis by (simp add: updated_def apply_transaction_updates_def)
      qed
    qed
    have ts1: "transactions s1 =
        map (\<lambda>x. if txn_id x = txn_id updated then updated else x) (transactions s)"
      by (simp add: s1_def save_transaction_def)
    have as1: "accounts s1 = accounts s" by (simp add: s1_def)
    have n1: "nextId s1 = nextId s" by (simp add: s1_def save_transaction_def)
    have se: "signed existing =
        (if txn_type existing = Income then txn_amount existing else - txn_amount existing)"
      by (simp add: signed_def)
    have p: "pending_ok s1 (\<lambda>k. (if txn_accountId updated = k then signed updated else 0)
                - (if txn_accountId existing = k
                   then (if txn_type existing = Income then txn_amount existing
                         else - txn_amount existing)
                   else 0))"
      using c net_replace [OF dt emem uid]
      by (auto simp: balances_consistent_pending pending_ok_def list_all_iff as1 ts1 se)
    from update_account_balances_ledger [of s1 "txn_amount existing" updated
        "txn_accountId existing" "txn_type existing"] d bc oc nc oldref newref p
    obtain s2 where
      run: "update_account_balances (txn_accountId existing) (txn_type existing)
              (txn_amount existing) updated s1 = Some s2"
      and p2: "pending_ok s2 (\<lambda>k. 0)"
      and ids2: "map acc_id (accounts s2) = map acc_id (accounts s1)"
      and bc2: "list_all (\<lambda>a. in_cents (balance a)) (accounts s2)"
      and ts2: "transactions s2 = transactions s1" and n2: "nextId s2 = nextId s1"
      by (auto simp: as1)
    from res run have r: "snd (updateTransaction userId transactionId updates s) = s2" by simp
    have cons: "balances_consistent s2" using p2 by (simp add: balances_consistent_pending)
    have "ledger_ok s2"
    proof (rule ledger_ok_accounts_step [OF ok])
      show "map acc_id (accounts s2) = map acc_id (accounts s)" using ids2 as1 by simp
      show "list_all (\<lambda>a. in_cents (balance a)) (accounts s2)" by (rule bc2)
      show "distinct (map txn_id (transactions s2))"
        unfolding ts2 ts1 replace_keeps_txn_ids by (rule dt)
      show "list_all (\<lambda>t. txn_id t < nextId s2) (transactions s2)"
        using ok emem uid by (auto simp: ts2 ts1 n2 n1 ledger_ok_def list_all_iff)
      show "list_all (\<lambda>t. txn_accountId t \<in> set (map acc_id (accounts s))) (transactions s2)"
        using ok newref by (auto simp: ts2 ts1 ledger_ok_def list_all_iff)
      show "list_all (\<lambda>t. in_cents (txn_amount t)) (transactions s2)"
        using ok nc by (auto simp: ts2 ts1 ledger_ok_def list_all_iff)
    qed
    with cons r show ?thesis by simp
  qed
qed

lemma handle_ledger:
  assumes "ledger_ok s" and "balances_consistent s" and "ledger_request r"
  shows "balances_consistent (handle r s) \<and> ledger_ok (handle r s)"
proof (cases r)
  case (CreateTransaction u req)
  with assms show ?thesis by (simp add: createTransaction_ledger)
next
  case (UpdateTransaction u i upd)
  with assms show ?thesis by (simp add: updateTransaction_ledger)
next
  case (DeleteTransaction u i)
  with assms show ?thesis by (simp add: deleteTransaction_ledger)
qed (use assms in simp_all)

lemma balance_invariant_whole_cents:
  assumes "ledger_ok s" and "balances_consistent s" and "list_all ledger_request rs"
  shows "balances_consistent (run rs s) \<and> ledger_ok (run rs s)"
  using assms
proof (induction rs arbitrary: s)
  case Nil
  then show ?case by (simp add: run_def)
next
  case (Cons r rs)
  from Cons.prems have "ledger_request r" and rest: "list_all ledger_request rs" by simp_all
  with handle_ledger [of s r] Cons.prems
  have "balances_consistent (handle r s)" "ledger_ok (handle r s)" by simp_all
  from Cons.IH [OF this(2) this(1) rest] show ?case by (simp add: run_def)
qed

text \<open>
  The session on the account Wallet that creates an expense, changes its type and deletes
  it satisfies the hypotheses; the expense of half a cent does not.
\<close>

lemma balance_invariant_example:
  "balances_consistent (run [CreateTransaction 1 coffee_request,
      UpdateTransaction 1 101 type_only_update, DeleteTransaction 1 101] wallet_db) \<and>
   \<not> ledger_request (CreateTransaction 1 half_cent_expense)"
proof -
  have ok: "ledger_ok wallet_db" by code_simp
  have c: "balances_consistent wallet_db" by code_simp
  have rs: "list_all ledger_request [CreateTransaction 1 coffee_request,
      UpdateTransaction 1 101 type_only_update, DeleteTransaction 1 101]" by code_simp
  have no: "\<not> ledger_request (CreateTransaction 1 half_cent_expense)" by code_simp
  from balance_invariant_whole_cents [OF ok c rs] no show ?thesis by simp
qed

end
